theory Spec2Isabelle
  imports Complex_Main "HOL-Library.Sublist"
begin

section \<open>Exceptions and Python strings\<close>

text \<open>
  The exceptions the browser context raises or catches. \<open>URLNotAllowedError\<close> is the
  dedicated subclass of \<open>BrowserError\<close>; \<open>Exception\<close> stands for a plain \<open>Exception\<close>
  and for any other subclass, such as the ones the Playwright engine or the file system raise.
  Every constructor is an instance of Python's \<open>Exception\<close>, so \<open>except Exception\<close>
  catches all of them.
\<close>

datatype exn =
    BrowserError string
  | URLNotAllowedError string
  | KeyError int
  | IndexError string
  | ValueError string
  | TypeError string
  | Exception string

text \<open>
  Strings are lists of 8-bit characters, read as the code points below 256 of a Python
  \<open>str\<close>. \<open>py_lower\<close> is \<open>str.lower()\<close> on that range.
\<close>

definition py_lower_char :: "char \<Rightarrow> char" where
  "py_lower_char c =
     (let n = (of_char c :: nat)
      in if (65 \<le> n \<and> n \<le> 90) \<or> (192 \<le> n \<and> n \<le> 222 \<and> n \<noteq> 215)
         then char_of (n + 32) else c)"

definition py_lower :: "string \<Rightarrow> string" where
  "py_lower s = map py_lower_char s"

text \<open>\<open>py_isspace\<close> is \<open>str.isspace()\<close> on one character (also the class \<open>\s\<close> of \<open>re\<close>).\<close>

definition py_isspace :: "char \<Rightarrow> bool" where
  "py_isspace c =
     (let n = (of_char c :: nat)
      in (9 \<le> n \<and> n \<le> 13) \<or> (28 \<le> n \<and> n \<le> 32) \<or> n = 133 \<or> n = 160)"

definition ascii_alpha :: "char \<Rightarrow> bool" where
  "ascii_alpha c =
     (let n = (of_char c :: nat) in (65 \<le> n \<and> n \<le> 90) \<or> (97 \<le> n \<and> n \<le> 122))"

definition ascii_digit :: "char \<Rightarrow> bool" where
  "ascii_digit c = (let n = (of_char c :: nat) in 48 \<le> n \<and> n \<le> 57)"

text \<open>\<open>s.split(c)[0]\<close>: the part of \<open>s\<close> before the first \<open>c\<close>.\<close>

definition split_first :: "char \<Rightarrow> string \<Rightarrow> string" where
  "split_first c s = takeWhile (\<lambda>x. x \<noteq> c) s"

section \<open>Configuration\<close>

text \<open>
  \<open>BrowserContextConfig\<close>, with the fields the operations below read. An absent
  (\<open>None\<close>) list of allowed domains means that navigation is unrestricted.
\<close>

record config =
  cookies_file :: "string option"
  trace_path :: "string option"
  highlight_elements :: bool
  viewport_expansion :: int
  minimum_wait_page_load_time :: real
  allowed_domains :: "string list option"

section \<open>Allowlist guard\<close>

text \<open>
  \<open>_is_url_allowed\<close>. The standard library's \<open>urlparse(url).netloc\<close> is the parameter
  \<open>netloc_of\<close>: it returns the network location of the URL or raises (\<open>Inl\<close>).
  \<open>not self.config.allowed_domains\<close> holds for \<open>None\<close> and for the empty list. Any
  exception inside the \<open>try\<close> is caught and the answer is \<open>False\<close>.
\<close>

definition strip_port :: "string \<Rightarrow> string" where
  "strip_port domain = (if CHR '':'' \<in> set domain then split_first (CHR '':'') domain else domain)"

definition domain_matches :: "string \<Rightarrow> string \<Rightarrow> bool" where
  "domain_matches domain allowed_domain =
     (domain = py_lower allowed_domain \<or> suffix (CHR ''.'' # py_lower allowed_domain) domain)"

definition is_url_allowed :: "(string \<Rightarrow> exn + string) \<Rightarrow> config \<Rightarrow> string \<Rightarrow> bool" where
  "is_url_allowed netloc_of cfg url =
     (case allowed_domains cfg of
        None \<Rightarrow> True
      | Some ds \<Rightarrow>
          if ds = [] then True
          else (case netloc_of url of
                  Inl e \<Rightarrow> False
                | Inr netloc \<Rightarrow> list_ex (domain_matches (strip_port (py_lower netloc))) ds))"

subsection \<open>The standard library's URL splitting\<close>

text \<open>
  \<open>urlsplit_netloc\<close> follows CPython's \<open>urllib.parse.urlsplit\<close> up to the point where
  the network location is known: leading C0 controls and spaces are stripped, tab,
  carriage return and newline are removed, a scheme is split off, and after \<open>//\<close> the
  network location runs up to the first of \<open>/\<close>, \<open>?\<close> and \<open>#\<close>. Unbalanced brackets
  raise \<open>ValueError\<close>; the validation of a bracketed host by the \<open>ipaddress\<close> module is
  the parameter \<open>bracketed_ok\<close>. It is used to evaluate the guard on concrete URLs.
\<close>

definition c0_control_or_space :: "char \<Rightarrow> bool" where
  "c0_control_or_space c = ((of_char c :: nat) \<le> 32)"

definition unsafe_url_byte :: "char \<Rightarrow> bool" where
  "unsafe_url_byte c = (c = CHR 0x09 \<or> c = CHR 0x0D \<or> c = CHR 0x0A)"

definition scheme_char :: "char \<Rightarrow> bool" where
  "scheme_char c = (ascii_alpha c \<or> ascii_digit c \<or> c = CHR ''+'' \<or> c = CHR ''-'' \<or> c = CHR ''.'')"

definition split_scheme :: "string \<Rightarrow> string" where
  "split_scheme url =
     (case url of
        [] \<Rightarrow> url
      | c # _ \<Rightarrow>
          if CHR '':'' \<in> set url \<and> c \<noteq> CHR '':'' \<and> ascii_alpha c
             \<and> list_all scheme_char (split_first (CHR '':'') url)
          then tl (dropWhile (\<lambda>x. x \<noteq> CHR '':'') url)
          else url)"

definition splitnetloc :: "string \<Rightarrow> string" where
  "splitnetloc rest = takeWhile (\<lambda>x. x \<noteq> CHR ''/'' \<and> x \<noteq> CHR ''?'' \<and> x \<noteq> CHR ''#'') rest"

definition urlsplit_netloc :: "(string \<Rightarrow> bool) \<Rightarrow> string \<Rightarrow> exn + string" where
  "urlsplit_netloc bracketed_ok url0 =
     (let url1 = dropWhile c0_control_or_space url0;
          url2 = filter (\<lambda>c. \<not> unsafe_url_byte c) url1;
          url3 = split_scheme url2
      in if take 2 url3 = ''//'' then
           (let netloc = splitnetloc (drop 2 url3);
                has_open = (CHR ''['' \<in> set netloc);
                has_close = (CHR '']'' \<in> set netloc)
            in if (has_open \<and> \<not> has_close) \<or> (has_close \<and> \<not> has_open)
               then Inl (ValueError ''Invalid IPv6 URL'')
               else if has_open \<and> has_close
                       \<and> \<not> bracketed_ok (split_first (CHR '']'') (tl (dropWhile (\<lambda>x. x \<noteq> CHR ''['') netloc)))
               then Inl (ValueError ''invalid bracketed host'')
               else Inr netloc)
         else Inr [])"

text \<open>
  Following the spec's words ("parse URL, extract host, strip port"): the host of a
  network location is what follows the last \<open>@\<close> (the user information is not part of
  the host), up to the port's colon, lowercased. Bracketed hosts are left aside here.
\<close>

definition spec_host :: "string \<Rightarrow> string" where
  "spec_host netloc =
     py_lower (split_first (CHR '':'') (rev (split_first (CHR ''@'') (rev netloc))))"

section \<open>Network settle detector\<close>

text \<open>
  The two event handlers of \<open>_wait_for_stable_network\<close>. A request is a Playwright
  object, compared by identity (\<open>request_id\<close>); its headers are a dictionary with
  lowercased names. The handlers share the variables \<open>pending_requests\<close> (a set) and
  \<open>last_activity\<close> (a reading of the event loop's clock): they are the state, and the
  clock's reading at the time of the call is the argument \<open>now\<close>.
\<close>

record request =
  request_id :: nat
  resource_type :: string
  request_url :: string
  request_headers :: "(string \<times> string) list"

record response =
  response_request :: request
  response_headers :: "(string \<times> string) list"

record settle_state =
  pending_requests :: "request set"
  last_activity :: real

definition RELEVANT_RESOURCE_TYPES :: "string list" where
  "RELEVANT_RESOURCE_TYPES = [''document'', ''stylesheet'', ''image'', ''font'', ''script'', ''iframe'']"

definition REALTIME_RESOURCE_TYPES :: "string list" where
  "REALTIME_RESOURCE_TYPES = [''websocket'', ''media'', ''eventsource'', ''manifest'', ''other'']"

definition RELEVANT_CONTENT_TYPES :: "string list" where
  "RELEVANT_CONTENT_TYPES =
     [''text/html'', ''text/css'', ''application/javascript'', ''image/'', ''font/'', ''application/json'']"

definition STREAMING_CONTENT_TYPES :: "string list" where
  "STREAMING_CONTENT_TYPES =
     [''streaming'', ''video'', ''audio'', ''webm'', ''mp4'', ''event-stream'', ''websocket'', ''protobuf'']"

definition IGNORED_URL_PATTERNS :: "string list" where
  "IGNORED_URL_PATTERNS =
     [''analytics'', ''tracking'', ''telemetry'', ''beacon'', ''metrics'',
      ''doubleclick'', ''adsystem'', ''adserver'', ''advertising'',
      ''facebook.com/plugins'', ''platform.twitter'', ''linkedin.com/embed'',
      ''livechat'', ''zendesk'', ''intercom'', ''crisp.chat'', ''hotjar'',
      ''push-notifications'', ''onesignal'', ''pushwoosh'',
      ''heartbeat'', ''ping'', ''alive'',
      ''webrtc'', ''rtmp://'', ''wss://'',
      ''cloudfront.net'', ''fastly.net'']"

text \<open>\<open>sub in s\<close> for two strings is \<open>sublist sub s\<close>; \<open>any(p in s for p in ps)\<close>:\<close>

definition any_in :: "string list \<Rightarrow> string \<Rightarrow> bool" where
  "any_in ps s = list_ex (\<lambda>p. sublist p s) ps"

definition on_request :: "real \<Rightarrow> request \<Rightarrow> settle_state \<Rightarrow> settle_state" where
  "on_request now request s =
     (if resource_type request \<notin> set RELEVANT_RESOURCE_TYPES then s
      else if resource_type request \<in> set REALTIME_RESOURCE_TYPES then s
      else
        (let url = py_lower (request_url request);
             headers = map_of (request_headers request)
         in if any_in IGNORED_URL_PATTERNS url then s
            else if prefix ''data:'' url \<or> prefix ''blob:'' url then s
            else if headers ''purpose'' = Some ''prefetch''
                    \<or> headers ''sec-fetch-dest'' = Some ''video''
                    \<or> headers ''sec-fetch-dest'' = Some ''audio'' then s
            else s\<lparr>pending_requests := insert request (pending_requests s), last_activity := now\<rparr>))"

text \<open>
  \<open>int(s)\<close> on a string: surrounding whitespace, an optional sign, decimal digits with
  single underscores between them; anything else raises \<open>ValueError\<close>. The whitespace
  \<open>int\<close> skips is narrower than that of \<open>str.strip\<close>: tab to carriage return and the
  space, and the two spaces above 127 (next line, no-break space), which \<open>int\<close> turns
  into spaces first; the separators 28 to 31 are not skipped. (The message of the
  exception is shortened, and the interpreter's optional limit on the number of digits
  is not modelled.)
\<close>

definition py_strip :: "string \<Rightarrow> string" where
  "py_strip s = rev (dropWhile py_isspace (rev (dropWhile py_isspace s)))"

definition digits_value :: "string \<Rightarrow> nat" where
  "digits_value ds = foldl (\<lambda>acc c. 10 * acc + (of_char c - 48)) 0 ds"

definition int_literal_ok :: "string \<Rightarrow> bool" where
  "int_literal_ok body =
     (body \<noteq> [] \<and> ascii_digit (hd body) \<and> ascii_digit (last body)
      \<and> list_all (\<lambda>c. ascii_digit c \<or> c = CHR ''_'') body \<and> \<not> sublist ''__'' body)"

definition int_space :: "char \<Rightarrow> bool" where
  "int_space c =
     (let n = (of_char c :: nat) in (9 \<le> n \<and> n \<le> 13) \<or> n = 32 \<or> n = 133 \<or> n = 160)"

definition py_int :: "string \<Rightarrow> exn + int" where
  "py_int s =
     (let t = rev (dropWhile int_space (rev (dropWhile int_space s)));
          signed = (t \<noteq> [] \<and> (hd t = CHR ''-'' \<or> hd t = CHR ''+''));
          body = (if signed then tl t else t);
          v = int (digits_value (filter (\<lambda>c. c \<noteq> CHR ''_'') body))
      in if int_literal_ok body
         then Inr (if signed \<and> hd t = CHR ''-'' then - v else v)
         else Inl (ValueError ''invalid literal for int() with base 10''))"

text \<open>
  \<open>on_response\<close>. The three filters remove the request from the pending set and return
  at once; only the last path also reads the clock. \<open>int(content_length)\<close> may raise,
  and then the handler ends with that exception, the state as it was.
\<close>

definition content_type_of :: "response \<Rightarrow> string" where
  "content_type_of response =
     py_lower (case map_of (response_headers response) ''content-type'' of
                 None \<Rightarrow> [] | Some v \<Rightarrow> v)"

definition on_response :: "real \<Rightarrow> response \<Rightarrow> settle_state \<Rightarrow> exn + settle_state" where
  "on_response now response s =
     (let request = response_request response;
          removed = s\<lparr>pending_requests := pending_requests s - {request}\<rparr>;
          resolved = s\<lparr>pending_requests := pending_requests s - {request}, last_activity := now\<rparr>
      in if request \<notin> pending_requests s then Inr s
         else if any_in STREAMING_CONTENT_TYPES (content_type_of response) then Inr removed
         else if \<not> any_in RELEVANT_CONTENT_TYPES (content_type_of response) then Inr removed
         else (case map_of (response_headers response) ''content-length'' of
                 None \<Rightarrow> Inr resolved
               | Some content_length \<Rightarrow>
                   if content_length = [] then Inr resolved
                   else (case py_int content_length of
                           Inl e \<Rightarrow> Inl e
                         | Inr n \<Rightarrow> if n > 5 * 1024 * 1024 then Inr removed else Inr resolved)))"

text \<open>Examples: a pending script request, and a response to it that carries a video.\<close>

definition example_request :: request where
  "example_request =
     \<lparr>request_id = 1, resource_type = ''script'',
      request_url = ''https://example.com/app.js'', request_headers = []\<rparr>"

definition video_response :: response where
  "video_response =
     \<lparr>response_request = example_request, response_headers = [(''content-type'', ''video/mp4'')]\<rparr>"

definition script_response :: response where
  "script_response =
     \<lparr>response_request = example_request,
      response_headers = [(''content-type'', ''application/javascript''), (''content-length'', ''2048'')]\<rparr>"

text \<open>The configuration of the spec's end-to-end scenario: the allowlist \<open>["example.com"]\<close>.\<close>

definition example_config :: config where
  "example_config =
     \<lparr>cookies_file = None, trace_path = None, highlight_elements = True,
      viewport_expansion = 500, minimum_wait_page_load_time = 1 / 2,
      allowed_domains = Some [''example.com'']\<rparr>"

text \<open>
  A response is filtered out when one of the three filters of \<open>on_response\<close> applies:
  a streaming or media content type, a content type outside the relevant ones, or a
  declared length above 5 MiB.
\<close>

definition response_filtered :: "response \<Rightarrow> bool" where
  "response_filtered response =
     (any_in STREAMING_CONTENT_TYPES (content_type_of response)
      \<or> \<not> any_in RELEVANT_CONTENT_TYPES (content_type_of response)
      \<or> (case map_of (response_headers response) ''content-length'' of
            None \<Rightarrow> False
          | Some content_length \<Rightarrow>
              content_length \<noteq> []
              \<and> (case py_int content_length of Inl e \<Rightarrow> False | Inr n \<Rightarrow> n > 5 * 1024 * 1024)))"

definition pending_example :: settle_state where
  "pending_example = \<lparr>pending_requests = {example_request}, last_activity = 0\<rparr>"

definition idle_example :: settle_state where
  "idle_example = \<lparr>pending_requests = {}, last_activity = 0\<rparr>"

section \<open>DOM element nodes\<close>

text \<open>
  Modelled from the spec: the class \<open>DOMElementNode\<close> (\<open>browser_use.dom.views\<close>) is not
  among the sources. A node has a tag name, a structural path, an attribute map, an
  optional index and a link to its parent; the owned children are left out, since no
  operation below reads them. The attribute map is a dictionary in insertion order: an
  association list with distinct keys. Python does not enforce the declared type of
  the values: \<open>Some v\<close> is the string \<open>v\<close>, and \<open>None\<close> is a value that is not a string
  (Python's \<open>None\<close>). The parent links of a tree are finite, as they are in a datatype.
\<close>

datatype dom_node =
  DOMElementNode
    (tag_name: string)
    (xpath: string)
    (attributes: "(string \<times> string option) list")
    (highlight_index: "int option")
    (parent: "dom_node option")

section \<open>More of Python's strings\<close>

text \<open>\<open>split_when P s\<close> cuts \<open>s\<close> at every character that satisfies \<open>P\<close>.\<close>

fun split_when :: "(char \<Rightarrow> bool) \<Rightarrow> string \<Rightarrow> string list" where
  "split_when P [] = [[]]"
| "split_when P (x # xs) =
     (if P x then [] # split_when P xs
      else (case split_when P xs of [] \<Rightarrow> [[x]] | w # ws \<Rightarrow> (x # w) # ws))"

text \<open>\<open>s.split(c)\<close> for a one-character separator, and \<open>s.split()\<close>.\<close>

definition py_split :: "char \<Rightarrow> string \<Rightarrow> string list" where
  "py_split c s = split_when (\<lambda>x. x = c) s"

definition py_split_ws :: "string \<Rightarrow> string list" where
  "py_split_ws s = filter (\<lambda>w. w \<noteq> []) (split_when py_isspace s)"

text \<open>\<open>s.strip(chars)\<close> and \<open>s.lstrip(chars)\<close>.\<close>

definition strip_chars :: "string \<Rightarrow> string \<Rightarrow> string" where
  "strip_chars chars s =
     rev (dropWhile (\<lambda>c. c \<in> set chars) (rev (dropWhile (\<lambda>c. c \<in> set chars) s)))"

definition lstrip_chars :: "string \<Rightarrow> string \<Rightarrow> string" where
  "lstrip_chars chars s = dropWhile (\<lambda>c. c \<in> set chars) s"

text \<open>
  \<open>s.isdigit()\<close>: the string is not empty and every character is a digit. Below 256
  the digits are \<open>0\<close> to \<open>9\<close> and the superscripts two, three and one, which \<open>int\<close>
  does not accept.
\<close>

definition py_isdigit_char :: "char \<Rightarrow> bool" where
  "py_isdigit_char c = (ascii_digit c \<or> c = CHR 0xB2 \<or> c = CHR 0xB3 \<or> c = CHR 0xB9)"

definition py_isdigit :: "string \<Rightarrow> bool" where
  "py_isdigit s = (s \<noteq> [] \<and> list_all py_isdigit_char s)"

text \<open>\<open>str(n)\<close> for an integer, as an f-string prints it.\<close>

fun str_of_nat :: "nat \<Rightarrow> string" where
  "str_of_nat n =
     (if n < 10 then [char_of (48 + n)] else str_of_nat (n div 10) @ [char_of (48 + n mod 10)])"

definition str_of_int :: "int \<Rightarrow> string" where
  "str_of_int i = (if i < 0 then CHR ''-'' # str_of_nat (nat (- i)) else str_of_nat (nat i))"

text \<open>\<open>sep.join(parts)\<close>, \<open>s.replace(c, r)\<close> for a character \<open>c\<close>, and \<open>re.sub(r'\s+', ' ', s)\<close>.\<close>

fun join_with :: "string \<Rightarrow> string list \<Rightarrow> string" where
  "join_with sep [] = []"
| "join_with sep [p] = p"
| "join_with sep (p # q # ps) = p @ sep @ join_with sep (q # ps)"

definition replace_char :: "char \<Rightarrow> string \<Rightarrow> string \<Rightarrow> string" where
  "replace_char c r s = concat (map (\<lambda>x. if x = c then r else [x]) s)"

fun collapse_whitespace :: "bool \<Rightarrow> string \<Rightarrow> string" where
  "collapse_whitespace in_run [] = []"
| "collapse_whitespace in_run (c # cs) =
     (if py_isspace c
      then (if in_run then collapse_whitespace True cs else CHR '' '' # collapse_whitespace True cs)
      else c # collapse_whitespace False cs)"

section \<open>Selector synthesizer\<close>

text \<open>
  \<open>_convert_simple_xpath_to_css_selector\<close>. The body of the \<open>try\<close> for one index
  predicate is \<open>index_selector\<close>: it gives the text to append, and \<open>int\<close> may raise.
  The loop over the predicates catches \<open>ValueError\<close> and goes on with the next one.
\<close>

definition index_selector :: "string \<Rightarrow> exn + string" where
  "index_selector idx =
     (if py_isdigit idx then
        (case py_int idx of
           Inl e \<Rightarrow> Inl e
         | Inr n \<Rightarrow> (let index = n - 1 in Inr ('':nth-of-type('' @ str_of_int (index + 1) @ '')'')))
      else if idx = ''last()'' then Inr '':last-of-type''
      else if sublist ''position()'' idx then
        (if sublist ''>1'' idx then Inr '':nth-of-type(n+2)'' else Inr [])
      else Inr [])"

fun append_indices :: "string \<Rightarrow> string list \<Rightarrow> exn + string" where
  "append_indices base_part [] = Inr base_part"
| "append_indices base_part (idx # indices) =
     (case index_selector idx of
        Inl (ValueError m) \<Rightarrow> append_indices base_part indices
      | Inl e \<Rightarrow> Inl e
      | Inr t \<Rightarrow> append_indices (base_part @ t) indices)"

definition convert_part :: "string \<Rightarrow> exn + string" where
  "convert_part part =
     (if CHR ''['' \<in> set part then
        (let base_part = takeWhile (\<lambda>c. c \<noteq> CHR ''['') part;
             index_part = dropWhile (\<lambda>c. c \<noteq> CHR ''['') part;
             indices = map (strip_chars ''[]'') (butlast (py_split (CHR '']'') index_part))
         in append_indices base_part indices)
      else Inr part)"

fun convert_parts :: "string list \<Rightarrow> string list \<Rightarrow> exn + string list" where
  "convert_parts css_parts [] = Inr css_parts"
| "convert_parts css_parts (part # parts) =
     (if part = [] then convert_parts css_parts parts
      else (case convert_part part of
              Inl e \<Rightarrow> Inl e
            | Inr p \<Rightarrow> convert_parts (css_parts @ [p]) parts))"

definition convert_simple_xpath_to_css_selector :: "string \<Rightarrow> exn + string" where
  "convert_simple_xpath_to_css_selector xpath0 =
     (if xpath0 = [] then Inr []
      else (case convert_parts [] (py_split (CHR ''/'') (lstrip_chars ''/'' xpath0)) of
              Inl e \<Rightarrow> Inl e
            | Inr css_parts \<Rightarrow> Inr (join_with '' > '' css_parts)))"

text \<open>
  \<open>_enhanced_css_selector_for_element\<close>. The pattern of valid class names is
  \<open>^[a-zA-Z_][a-zA-Z0-9_-]*$\<close>, applied with \<open>match\<close>: \<open>$\<close> also matches before a
  final newline.
\<close>

definition class_name_char :: "char \<Rightarrow> bool" where
  "class_name_char c = (ascii_alpha c \<or> ascii_digit c \<or> c = CHR ''_'' \<or> c = CHR ''-'')"

definition valid_class_name :: "string \<Rightarrow> bool" where
  "valid_class_name s =
     (case s of
        [] \<Rightarrow> False
      | c # cs \<Rightarrow>
          (ascii_alpha c \<or> c = CHR ''_'')
          \<and> (list_all class_name_char cs
               \<or> (cs \<noteq> [] \<and> last cs = CHR 0x0A \<and> list_all class_name_char (butlast cs))))"

fun append_classes :: "string \<Rightarrow> string list \<Rightarrow> string" where
  "append_classes css_selector [] = css_selector"
| "append_classes css_selector (class_name # classes) =
     (if py_strip class_name = [] then append_classes css_selector classes
      else if valid_class_name class_name
      then append_classes (css_selector @ CHR ''.'' # class_name) classes
      else append_classes css_selector classes)"

definition SAFE_ATTRIBUTES :: "string list" where
  "SAFE_ATTRIBUTES =
     [''id'', ''name'', ''type'', ''value'', ''placeholder'',
      ''aria-label'', ''aria-labelledby'', ''aria-describedby'', ''role'',
      ''for'', ''autocomplete'', ''required'', ''readonly'',
      ''alt'', ''title'', ''src'',
      ''data-testid'', ''data-id'', ''data-qa'', ''data-cy'',
      ''href'', ''target'']"

text \<open>The characters that make a value "special": double and single quote, angle brackets, backquote, newline, carriage return, tab.\<close>

definition SPECIAL_CHARS :: string where
  "SPECIAL_CHARS = [CHR 0x22, CHR 0x27, CHR ''<'', CHR ''>'', CHR 0x60, CHR 0x0A, CHR 0x0D, CHR 0x09]"

definition attribute_selector :: "string \<Rightarrow> string \<Rightarrow> string" where
  "attribute_selector safe_attribute v =
     (if v = [] then ''['' @ safe_attribute @ '']''
      else if list_ex (\<lambda>char. char \<in> set v) SPECIAL_CHARS then
        (let collapsed_value = py_strip (collapse_whitespace False v);
             safe_value = replace_char (CHR 0x22) [CHR 0x5C, CHR 0x22] collapsed_value
         in ''['' @ safe_attribute @ ''*='' @ [CHR 0x22] @ safe_value @ [CHR 0x22] @ '']'')
      else ''['' @ safe_attribute @ ''='' @ [CHR 0x22] @ v @ [CHR 0x22] @ '']'')"

fun append_attributes :: "string \<Rightarrow> (string \<times> string option) list \<Rightarrow> exn + string" where
  "append_attributes css_selector [] = Inr css_selector"
| "append_attributes css_selector ((attribute, val) # items) =
     (if attribute = ''class'' then append_attributes css_selector items
      else if py_strip attribute = [] then append_attributes css_selector items
      else if attribute \<notin> set SAFE_ATTRIBUTES then append_attributes css_selector items
      else (let safe_attribute = replace_char (CHR '':'') [CHR 0x5C, CHR '':''] attribute
            in case val of
                 None \<Rightarrow> Inl (TypeError ''argument of type NoneType is not iterable'')
               | Some v \<Rightarrow>
                   append_attributes (css_selector @ attribute_selector safe_attribute v) items))"

definition selector_try_body :: "dom_node \<Rightarrow> exn + string" where
  "selector_try_body element =
     (case convert_simple_xpath_to_css_selector (xpath element) of
        Inl e \<Rightarrow> Inl e
      | Inr css_selector \<Rightarrow>
          append_attributes
            (case map_of (attributes element) ''class'' of
               Some (Some cls) \<Rightarrow>
                 if cls \<noteq> [] then append_classes css_selector (py_split_ws cls) else css_selector
             | _ \<Rightarrow> css_selector)
            (attributes element))"

definition fallback_selector :: "dom_node \<Rightarrow> string" where
  "fallback_selector element =
     (let tag = (if tag_name element = [] then ''*'' else tag_name element)
      in tag @ ''[highlight_index='' @ [CHR 0x27]
           @ (case highlight_index element of None \<Rightarrow> ''None'' | Some i \<Rightarrow> str_of_int i)
           @ [CHR 0x27] @ '']'')"

definition enhanced_css_selector_for_element :: "dom_node \<Rightarrow> exn + string" where
  "enhanced_css_selector_for_element element =
     (case selector_try_body element of
        Inr css_selector \<Rightarrow> Inr css_selector
      | Inl e \<Rightarrow> Inr (fallback_selector element))"

text \<open>
  For the statements below: the attributes the selector uses (the stable ones, the
  class apart), the text one attribute contributes, and the text the class attribute
  contributes (one \<open>.token\<close> per token that is a valid class name).
\<close>

definition attribute_used :: "string \<Rightarrow> bool" where
  "attribute_used attribute =
     (attribute \<noteq> ''class'' \<and> py_strip attribute \<noteq> [] \<and> attribute \<in> set SAFE_ATTRIBUTES)"

definition attribute_part :: "string \<times> string option \<Rightarrow> string" where
  "attribute_part item =
     (case item of
        (attribute, Some v) \<Rightarrow>
          if attribute_used attribute
          then attribute_selector (replace_char (CHR '':'') [CHR 0x5C, CHR '':''] attribute) v
          else []
      | (attribute, None) \<Rightarrow> [])"

definition class_part :: "string \<Rightarrow> string" where
  "class_part cls = concat (map (\<lambda>t. CHR ''.'' # t) (filter valid_class_name (py_split_ws cls)))"

text \<open>
  Example nodes: one with typed attributes, one whose class attribute has tokens that
  are no valid class names, and one with an attribute value that is not a string.
\<close>

definition typed_node :: dom_node where
  "typed_node =
     DOMElementNode ''a'' ''/html/body/a[1]''
       [(''class'', Some ''a b''), (''id'', Some ''foo'')] (Some 3) None"

definition odd_class_node :: dom_node where
  "odd_class_node =
     DOMElementNode ''a'' ''/html/body/a[1]''
       [(''class'', Some ''a 1b b$ c''), (''id'', Some ''foo'')] (Some 3) None"

definition untyped_node :: dom_node where
  "untyped_node = DOMElementNode ''div'' ''/html/body/div[2]'' [(''id'', None)] (Some 3) None"

section \<open>The browser engine and the state of a browser context\<close>

text \<open>
  Pages and element handles are the engine's objects, named by numbers. A snapshot
  (\<open>BrowserState\<close>) holds the element tree, the selector map (a dictionary from index to
  node), the URL, the title, the tabs, the optional screenshot and the scroll offsets.
\<close>

type_synonym page = nat
type_synonym element_handle = nat
type_synonym cookies = "string list"

record tab_info =
  tab_page_id :: nat
  tab_url :: string
  tab_title :: string

record browser_state =
  element_tree :: dom_node
  selector_map :: "(int \<times> dom_node) list"
  state_url :: string
  state_title :: string
  tabs :: "tab_info list"
  screenshot :: "string option"
  pixels_above :: int
  pixels_below :: int

text \<open>What the DOM extraction returns, and where a selector is resolved: the page or a chain of frame locators on it.\<close>

record dom_state =
  dom_element_tree :: dom_node
  dom_selector_map :: "(int \<times> dom_node) list"

datatype frame = PageFrame page | FrameLocator frame string

text \<open>
  Everything outside the repository is a parameter: the record \<open>'w engine\<close> gathers the
  calls into Playwright, the DOM extraction service, the file system, the clock and the
  standard library's URL parser, over a state \<open>'w\<close> of the outside world. A call that
  can raise returns \<open>Inl\<close> of the exception, with the world as the call left it.
  \<open>create_context\<close> stands for \<open>get_playwright_browser\<close> and \<open>_create_context\<close>,
  \<open>network_settle\<close> for the polling loop of \<open>_wait_for_stable_network\<close> (its course is
  decided by the events the engine delivers while it sleeps), \<open>write_cookies\<close> for
  creating the directory and writing the file, \<open>page_screenshot\<close> gives the
  screenshot in base64, and \<open>node_repr\<close> is the \<open>repr\<close> of a node.
\<close>

type_synonym ('w, 'a) io = "'w \<Rightarrow> (exn + 'a) \<times> 'w"

record 'w engine =
  urlparse_netloc :: "string \<Rightarrow> exn + string"
  clock :: "'w \<Rightarrow> real"
  sleep :: "real \<Rightarrow> 'w \<Rightarrow> 'w"
  create_context :: "('w, unit) io"
  network_settle :: "page \<Rightarrow> ('w, unit) io"
  context_new_page :: "('w, page) io"
  context_pages :: "'w \<Rightarrow> page list"
  context_cookies :: "('w, cookies) io"
  context_close :: "('w, unit) io"
  tracing_stop :: "string \<Rightarrow> ('w, unit) io"
  write_cookies :: "string \<Rightarrow> cookies \<Rightarrow> ('w, unit) io"
  page_url :: "'w \<Rightarrow> page \<Rightarrow> string"
  page_title :: "page \<Rightarrow> ('w, string) io"
  page_goto :: "page \<Rightarrow> string \<Rightarrow> ('w, unit) io"
  page_go_back :: "page \<Rightarrow> ('w, unit) io"
  page_wait_for_load_state :: "page \<Rightarrow> ('w, unit) io"
  page_close :: "page \<Rightarrow> ('w, unit) io"
  page_bring_to_front :: "page \<Rightarrow> ('w, unit) io"
  page_evaluate :: "page \<Rightarrow> string \<Rightarrow> ('w, int) io"
  page_screenshot :: "page \<Rightarrow> ('w, string) io"
  get_clickable_elements :: "page \<Rightarrow> int \<Rightarrow> int \<Rightarrow> bool \<Rightarrow> ('w, dom_state) io"
  query_selector :: "page \<Rightarrow> string \<Rightarrow> ('w, element_handle option) io"
  locator_element_handle :: "frame \<Rightarrow> string \<Rightarrow> ('w, element_handle) io"
  scroll_into_view_if_needed :: "element_handle \<Rightarrow> ('w, unit) io"
  element_click :: "element_handle \<Rightarrow> ('w, unit) io"
  page_evaluate_click :: "page \<Rightarrow> element_handle \<Rightarrow> ('w, unit) io"
  node_repr :: "dom_node \<Rightarrow> string"

text \<open>
  \<open>BrowserSession\<close> (its engine context is the one context of the world) and the
  \<open>BrowserContext\<close> object: its identifier, its session (\<open>None\<close> before the first use
  and after \<open>close\<close>), and the attribute \<open>current_state\<close>, which exists only once
  \<open>_update_state\<close> has assembled a snapshot (\<open>None\<close>: \<open>hasattr\<close> is false).
\<close>

record session =
  current_page :: page
  cached_state :: browser_state

record 'w browser_context =
  context_id :: string
  session :: "session option"
  current_state :: "browser_state option"
  world :: 'w

text \<open>
  An operation takes the object's state and returns a value or an exception, with the
  new state. \<open>try_except m h\<close> is \<open>try: m except Exception as e: h e\<close>.
\<close>

type_synonym ('w, 'a) action = "'w browser_context \<Rightarrow> (exn + 'a) \<times> 'w browser_context"

definition returnE :: "'a \<Rightarrow> ('w, 'a) action" where
  "returnE x s = (Inr x, s)"

definition raiseE :: "exn \<Rightarrow> ('w, 'a) action" where
  "raiseE e s = (Inl e, s)"

definition bindE :: "('w, 'a) action \<Rightarrow> ('a \<Rightarrow> ('w, 'b) action) \<Rightarrow> ('w, 'b) action" where
  "bindE m f s = (case m s of (Inl e, s') \<Rightarrow> (Inl e, s') | (Inr x, s') \<Rightarrow> f x s')"

definition try_except :: "('w, 'a) action \<Rightarrow> (exn \<Rightarrow> ('w, 'a) action) \<Rightarrow> ('w, 'a) action" where
  "try_except m h s = (case m s of (Inl e, s') \<Rightarrow> h e s' | (Inr x, s') \<Rightarrow> (Inr x, s'))"

definition liftE :: "('w, 'a) io \<Rightarrow> ('w, 'a) action" where
  "liftE io s = (case io (world s) of (r, w') \<Rightarrow> (r, s\<lparr>world := w'\<rparr>))"

definition set_current_page :: "page \<Rightarrow> 'w browser_context \<Rightarrow> 'w browser_context" where
  "set_current_page p s = s\<lparr>session := map_option (\<lambda>x. x\<lparr>current_page := p\<rparr>) (session s)\<rparr>"

section \<open>Session lifecycle\<close>

text \<open>\<open>_get_initial_state\<close>, given the URL of the page (or the empty string without a page).\<close>

definition get_initial_state :: "string \<Rightarrow> browser_state" where
  "get_initial_state u =
     \<lparr>element_tree = DOMElementNode ''root'' [] [] None None,
      selector_map = [],
      state_url = u,
      state_title = [],
      tabs = [],
      screenshot = None,
      pixels_above = 0,
      pixels_below = 0\<rparr>"

definition initialize_session :: "'w engine \<Rightarrow> ('w, session) action" where
  "initialize_session E =
     bindE (liftE (create_context E)) (\<lambda>_.
     bindE (liftE (context_new_page E)) (\<lambda>page s.
       (let new_session =
              \<lparr>current_page = page,
               cached_state = get_initial_state (page_url E (world s) page)\<rparr>
        in (Inr new_session, s\<lparr>session := Some new_session\<rparr>))))"

definition get_session :: "'w engine \<Rightarrow> ('w, session) action" where
  "get_session E s =
     (case session s of
        None \<Rightarrow> initialize_session E s
      | Some the_session \<Rightarrow> (Inr the_session, s))"

definition get_current_page :: "'w engine \<Rightarrow> ('w, page) action" where
  "get_current_page E = bindE (get_session E) (\<lambda>the_session. returnE (current_page the_session))"

text \<open>\<open>os.path.join\<close> of two parts, on POSIX paths.\<close>

definition path_join :: "string \<Rightarrow> string \<Rightarrow> string" where
  "path_join a b =
     (if prefix ''/'' b then b
      else if a = [] \<or> suffix ''/'' a then a @ b
      else a @ ''/'' @ b)"

text \<open>
  \<open>save_cookies\<close>: nothing without a session or a cookie file; otherwise the cookies are
  read and written, and any exception is logged.
\<close>

definition save_cookies :: "'w engine \<Rightarrow> config \<Rightarrow> ('w, unit) action" where
  "save_cookies E cfg s =
     (case (session s, cookies_file cfg) of
        (Some _, Some file) \<Rightarrow>
          if file = [] then (Inr (), s)
          else try_except
                 (bindE (liftE (context_cookies E)) (\<lambda>cs. liftE (write_cookies E file cs)))
                 (\<lambda>e. returnE ()) s
      | _ \<Rightarrow> (Inr (), s))"

text \<open>\<open>close\<close>: the body of the \<open>try\<close>, then the \<open>finally\<close> clause, which runs on every path.\<close>

definition stop_tracing :: "'w engine \<Rightarrow> config \<Rightarrow> ('w, unit) action" where
  "stop_tracing E cfg s =
     (case trace_path cfg of
        None \<Rightarrow> (Inr (), s)
      | Some dir \<Rightarrow>
          if dir = [] then (Inr (), s)
          else try_except
                 (liftE (tracing_stop E (path_join dir (context_id s @ ''.zip''))))
                 (\<lambda>e. returnE ()) s)"

definition close_body :: "'w engine \<Rightarrow> config \<Rightarrow> ('w, unit) action" where
  "close_body E cfg s =
     (if session s = None then (Inr (), s)
      else bindE (save_cookies E cfg) (\<lambda>_.
           bindE (stop_tracing E cfg) (\<lambda>_.
           try_except (liftE (context_close E)) (\<lambda>e. returnE ()))) s)"

definition close :: "'w engine \<Rightarrow> config \<Rightarrow> ('w, unit) action" where
  "close E cfg s = (case close_body E cfg s of (r, s') \<Rightarrow> (r, s'\<lparr>session := None\<rparr>))"

section \<open>Navigation and tabs\<close>










section \<open>State refresh\<close>

text \<open>
  The scripts handed to \<open>page.evaluate\<close> are opaque to the model; the long script of
  \<open>remove_highlights\<close> is named, not quoted.
\<close>

definition REMOVE_HIGHLIGHTS_SCRIPT :: string where
  "REMOVE_HIGHLIGHTS_SCRIPT = ''remove the highlight container and the highlight attributes''"

definition remove_highlights :: "'w engine \<Rightarrow> ('w, unit) action" where
  "remove_highlights E =
     try_except
       (bindE (get_current_page E) (\<lambda>page.
        bindE (liftE (page_evaluate E page REMOVE_HIGHLIGHTS_SCRIPT)) (\<lambda>_. returnE ())))
       (\<lambda>e. returnE ())"

definition take_screenshot :: "'w engine \<Rightarrow> ('w, string) action" where
  "take_screenshot E = bindE (get_current_page E) (\<lambda>page. liftE (page_screenshot E page))"

definition get_scroll_info :: "'w engine \<Rightarrow> page \<Rightarrow> ('w, int \<times> int) action" where
  "get_scroll_info E page =
     bindE (liftE (page_evaluate E page ''window.scrollY'')) (\<lambda>scroll_y.
     bindE (liftE (page_evaluate E page ''window.innerHeight'')) (\<lambda>viewport_height.
     bindE (liftE (page_evaluate E page ''document.documentElement.scrollHeight'')) (\<lambda>total_height.
     returnE (scroll_y, total_height - (scroll_y + viewport_height)))))"

fun tabs_info_loop ::
    "'w engine \<Rightarrow> nat \<Rightarrow> page list \<Rightarrow> tab_info list \<Rightarrow> ('w, tab_info list) action" where
  "tabs_info_loop E i [] tabs_info s = (Inr tabs_info, s)"
| "tabs_info_loop E i (page # pages) tabs_info s =
     (case liftE (page_title E page) s of
        (Inl e, s') \<Rightarrow> (Inl e, s')
      | (Inr t, s') \<Rightarrow>
          tabs_info_loop E (Suc i) pages
            (tabs_info @ [\<lparr>tab_page_id = i, tab_url = page_url E (world s) page, tab_title = t\<rparr>]) s')"

definition get_tabs_info :: "'w engine \<Rightarrow> ('w, tab_info list) action" where
  "get_tabs_info E =
     bindE (get_session E) (\<lambda>_ s. tabs_info_loop E 0 (context_pages E (world s)) [] s)"

text \<open>
  \<open>_update_state\<close>, first part: the current page if a trivial script runs on it;
  otherwise the last page of the context becomes the current page (its title is read
  for the log), and without any page \<open>BrowserError\<close> is raised.
\<close>

definition accessible_page :: "'w engine \<Rightarrow> ('w, page) action" where
  "accessible_page E =
     try_except
       (bindE (get_current_page E) (\<lambda>page.
        bindE (liftE (page_evaluate E page ''1'')) (\<lambda>_. returnE page)))
       (\<lambda>e s.
          (let pages = context_pages E (world s)
           in if pages \<noteq> []
              then bindE (liftE (page_title E (last pages))) (\<lambda>_. returnE (last pages))
                     (set_current_page (last pages) s)
              else (Inl (BrowserError ''Browser closed: no valid pages available''), s)))"

text \<open>Second part, the body of the second \<open>try\<close>: extraction and assembly of the snapshot.\<close>

definition assemble_state ::
    "'w engine \<Rightarrow> config \<Rightarrow> bool \<Rightarrow> int \<Rightarrow> page \<Rightarrow> ('w, browser_state) action" where
  "assemble_state E cfg use_vision focus_element page =
     bindE (remove_highlights E) (\<lambda>_.
     bindE (liftE (get_clickable_elements E page focus_element
                     (viewport_expansion cfg) (highlight_elements cfg))) (\<lambda>content.
     bindE (if use_vision then bindE (take_screenshot E) (\<lambda>b. returnE (Some b))
            else returnE None) (\<lambda>screenshot_b64.
     bindE (get_scroll_info E page) (\<lambda>scroll.
     bindE (\<lambda>s. (Inr (page_url E (world s) page), s)) (\<lambda>u.
     bindE (liftE (page_title E page)) (\<lambda>t.
     bindE (get_tabs_info E) (\<lambda>tabs_info s.
       (let new_state =
              \<lparr>element_tree = dom_element_tree content,
               selector_map = dom_selector_map content,
               state_url = u,
               state_title = t,
               tabs = tabs_info,
               screenshot = screenshot_b64,
               pixels_above = fst scroll,
               pixels_below = snd scroll\<rparr>
        in (Inr new_state, s\<lparr>current_state := Some new_state\<rparr>)))))))))"

text \<open>
  \<open>_update_state\<close>: when the second part raises, the attribute \<open>current_state\<close> is
  returned if the object has it, and the exception is raised again if not.
\<close>

definition update_state :: "'w engine \<Rightarrow> config \<Rightarrow> bool \<Rightarrow> int \<Rightarrow> ('w, browser_state) action" where
  "update_state E cfg use_vision focus_element =
     bindE (get_session E) (\<lambda>_.
     bindE (accessible_page E) (\<lambda>page.
     try_except (assemble_state E cfg use_vision focus_element page)
       (\<lambda>e s. case current_state s of
                 Some previous \<Rightarrow> (Inr previous, s)
               | None \<Rightarrow> (Inl e, s))))"

section \<open>Element locator\<close>

text \<open>
  \<open>get_locate_element\<close>. The \<open>while\<close> loop collects the parents from the node upwards;
  the list is reversed and the iframes among it are kept. \<open>frame_locator\<close> only builds a
  locator (the engine resolves nothing yet), one per iframe, each inside the one before.
  The \<open>try\<close> holds the engine's resolution alone; a found element of the page itself is
  scrolled into view, and a missing one gives \<open>None\<close>.
\<close>

fun collect_parents :: "dom_node \<Rightarrow> dom_node list \<Rightarrow> dom_node list" where
  "collect_parents (DOMElementNode t x a h None) parents = parents"
| "collect_parents (DOMElementNode t x a h (Some p)) parents = collect_parents p (parents @ [p])"

definition iframe_parents :: "dom_node \<Rightarrow> dom_node list" where
  "iframe_parents element =
     filter (\<lambda>item. tag_name item = ''iframe'') (rev (collect_parents element []))"

fun enter_frames :: "frame \<Rightarrow> dom_node list \<Rightarrow> exn + frame" where
  "enter_frames current_frame [] = Inr current_frame"
| "enter_frames current_frame (p # iframes) =
     (case enhanced_css_selector_for_element p of
        Inl e \<Rightarrow> Inl e
      | Inr css_selector \<Rightarrow> enter_frames (FrameLocator current_frame css_selector) iframes)"

definition resolve_in_frame :: "'w engine \<Rightarrow> frame \<Rightarrow> string \<Rightarrow> ('w, element_handle option) action" where
  "resolve_in_frame E current_frame css_selector =
     (case current_frame of
        FrameLocator f sel \<Rightarrow>
          bindE (liftE (locator_element_handle E current_frame css_selector)) (\<lambda>h.
          returnE (Some h))
      | PageFrame page \<Rightarrow>
          bindE (liftE (query_selector E page css_selector)) (\<lambda>found.
            case found of
              None \<Rightarrow> returnE None
            | Some h \<Rightarrow>
                bindE (liftE (scroll_into_view_if_needed E h)) (\<lambda>_. returnE (Some h))))"

definition get_locate_element :: "'w engine \<Rightarrow> dom_node \<Rightarrow> ('w, element_handle option) action" where
  "get_locate_element E element =
     bindE (get_current_page E) (\<lambda>page.
       case enter_frames (PageFrame page) (iframe_parents element) of
         Inl e \<Rightarrow> raiseE e
       | Inr current_frame \<Rightarrow>
           (case enhanced_css_selector_for_element element of
              Inl e \<Rightarrow> raiseE e
            | Inr css_selector \<Rightarrow>
                try_except (resolve_in_frame E current_frame css_selector) (\<lambda>e. returnE None)))"

section \<open>Access by index\<close>

text \<open>\<open>d[k]\<close> on a dictionary raises \<open>KeyError\<close> for a missing key.\<close>

definition dict_get :: "(int \<times> 'a) list \<Rightarrow> int \<Rightarrow> exn + 'a" where
  "dict_get d k = (case map_of d k of None \<Rightarrow> Inl (KeyError k) | Some v \<Rightarrow> Inr v)"

definition get_selector_map :: "'w engine \<Rightarrow> ('w, (int \<times> dom_node) list) action" where
  "get_selector_map E =
     bindE (get_session E) (\<lambda>the_session. returnE (selector_map (cached_state the_session)))"

definition get_element_by_index :: "'w engine \<Rightarrow> int \<Rightarrow> ('w, element_handle option) action" where
  "get_element_by_index E index =
     bindE (get_selector_map E) (\<lambda>m.
       case dict_get m index of
         Inl e \<Rightarrow> raiseE e
       | Inr node \<Rightarrow> get_locate_element E node)"

definition get_dom_element_by_index :: "'w engine \<Rightarrow> int \<Rightarrow> ('w, dom_node option) action" where
  "get_dom_element_by_index E index =
     bindE (get_selector_map E) (\<lambda>m.
       case dict_get m index of
         Inl e \<Rightarrow> raiseE e
       | Inr node \<Rightarrow> returnE (Some node))"

section \<open>Clicking an element\<close>






section \<open>A simulated engine\<close>

text \<open>
  A small deterministic engine, to run the operations on concrete inputs. Its world is
  the list of open pages with their URLs, the number of the next page, and two switches:
  whether the DOM extraction works and whether frames resolve. Going back always times
  out; a call on a closed page raises.
\<close>

record sim_world =
  open_pages :: "(page \<times> string) list"
  next_page :: nat
  dom_available :: bool
  frames_available :: bool

definition sim_on_page :: "page \<Rightarrow> 'a \<Rightarrow> (sim_world, 'a) io" where
  "sim_on_page p x w =
     (if p \<in> fst ` set (open_pages w) then (Inr x, w)
      else (Inl (Exception ''Target page has been closed''), w))"

definition sim_engine :: "sim_world engine" where
  "sim_engine =
     \<lparr>urlparse_netloc = urlsplit_netloc (\<lambda>_. True),
      clock = (\<lambda>w. 0),
      sleep = (\<lambda>t w. w),
      create_context = (\<lambda>w. (Inr (), w)),
      network_settle = (\<lambda>p. sim_on_page p ()),
      context_new_page =
        (\<lambda>w. (Inr (next_page w),
               w\<lparr>open_pages := open_pages w @ [(next_page w, ''about:blank'')],
                 next_page := Suc (next_page w)\<rparr>)),
      context_pages = (\<lambda>w. map fst (open_pages w)),
      context_cookies = (\<lambda>w. (Inr [], w)),
      context_close = (\<lambda>w. (Inr (), w\<lparr>open_pages := []\<rparr>)),
      tracing_stop = (\<lambda>path w. (Inl (Exception ''Must start tracing before stopping''), w)),
      write_cookies = (\<lambda>file cs w. (Inr (), w)),
      page_url = (\<lambda>w p. case map_of (open_pages w) p of None \<Rightarrow> [] | Some u \<Rightarrow> u),
      page_title = (\<lambda>p. sim_on_page p []),
      page_goto =
        (\<lambda>p u w. if p \<in> fst ` set (open_pages w)
                  then (Inr (), w\<lparr>open_pages := map (\<lambda>(q, v). if q = p then (q, u) else (q, v)) (open_pages w)\<rparr>)
                  else (Inl (Exception ''Target page has been closed''), w)),
      page_go_back = (\<lambda>p w. (Inl (Exception ''Timeout 10ms exceeded''), w)),
      page_wait_for_load_state = (\<lambda>p. sim_on_page p ()),
      page_close = (\<lambda>p w. (Inr (), w\<lparr>open_pages := filter (\<lambda>(q, v). q \<noteq> p) (open_pages w)\<rparr>)),
      page_bring_to_front = (\<lambda>p. sim_on_page p ()),
      page_evaluate = (\<lambda>p script. sim_on_page p 0),
      page_screenshot = (\<lambda>p. sim_on_page p []),
      get_clickable_elements =
        (\<lambda>p focus expansion highlight w.
           if dom_available w
           then (Inr \<lparr>dom_element_tree = DOMElementNode ''html'' ''/html'' [] None None,
                      dom_selector_map = []\<rparr>, w)
           else (Inl (Exception ''Execution context was destroyed''), w)),
      query_selector = (\<lambda>p css w. (Inr None, w)),
      locator_element_handle =
        (\<lambda>f css w. if frames_available w then (Inr 0, w)
                    else (Inl (Exception ''Timeout exceeded while waiting for frame''), w)),
      scroll_into_view_if_needed = (\<lambda>h w. (Inr (), w)),
      element_click = (\<lambda>h w. (Inr (), w)),
      page_evaluate_click = (\<lambda>p h w. (Inr (), w)),
      node_repr = tag_name\<rparr>"

text \<open>
  States of a browser context over the simulated engine: a context not used yet, and a
  context with a session on a given list of open pages, the current page given.
\<close>

definition sim_fresh :: "sim_world browser_context" where
  "sim_fresh =
     \<lparr>context_id = ''c0'', session = None, current_state = None,
      world = \<lparr>open_pages = [], next_page = 0, dom_available = True, frames_available = True\<rparr>\<rparr>"


text \<open>
  A session whose cached snapshot has one entry in its selector map, and a context with
  three tabs, the third one current.
\<close>

definition one_entry_session :: session where
  "one_entry_session =
     \<lparr>current_page = 0,
      cached_state = (get_initial_state [])\<lparr>selector_map := [(1, DOMElementNode ''a'' ''/html/body/a'' [] (Some 1) None)]\<rparr>\<rparr>"







text \<open>
  For the state refresh: a context whose DOM extraction fails, and a snapshot of an
  earlier refresh.
\<close>

definition dom_broken :: "sim_world browser_context" where
  "dom_broken =
     \<lparr>context_id = ''c0'',
      session = Some \<lparr>current_page = 0, cached_state = get_initial_state []\<rparr>,
      current_state = None,
      world = \<lparr>open_pages = [(0, ''https://example.com/'')], next_page = 1,
               dom_available = False, frames_available = True\<rparr>\<rparr>"

definition earlier_snapshot :: browser_state where
  "earlier_snapshot = (get_initial_state ''https://example.com/'')\<lparr>state_title := ''Example''\<rparr>"

text \<open>
  An operation keeps the attribute \<open>current_state\<close>, or keeps it at least when it raises.
\<close>

definition keeps_current_state :: "('w, 'a) action \<Rightarrow> bool" where
  "keeps_current_state m = (\<forall>s. current_state (snd (m s)) = current_state s)"

definition failure_keeps_current_state :: "('w, 'a) action \<Rightarrow> bool" where
  "failure_keeps_current_state m = (\<forall>s e s'. m s = (Inl e, s') \<longrightarrow> current_state s' = current_state s)"

text \<open>
  For the statement about the locator: the ancestors of a node from the root down to
  its parent, the selector the synthesis gives for a node, and the frame locators of
  the iframe ancestors, nested from the root inwards on the given page.
\<close>

fun ancestors_root_first :: "dom_node \<Rightarrow> dom_node list" where
  "ancestors_root_first (DOMElementNode t x a h None) = []"
| "ancestors_root_first (DOMElementNode t x a h (Some p)) = ancestors_root_first p @ [p]"

definition selector_text :: "dom_node \<Rightarrow> string" where
  "selector_text n =
     (case enhanced_css_selector_for_element n of Inr css \<Rightarrow> css | Inl e \<Rightarrow> fallback_selector n)"

definition frame_chain :: "page \<Rightarrow> dom_node \<Rightarrow> frame" where
  "frame_chain page element =
     foldl (\<lambda>f n. FrameLocator f (selector_text n)) (PageFrame page)
       (filter (\<lambda>n. tag_name n = ''iframe'') (ancestors_root_first element))"

text \<open>
  Examples: a button two iframes deep, a link of the page itself, and a context in which
  frames do not resolve.
\<close>

definition nested_button :: dom_node where
  "nested_button =
     DOMElementNode ''button'' ''/html/body/button'' [(''id'', Some ''go'')] (Some 5)
       (Some (DOMElementNode ''body'' ''/html/body'' [] None
         (Some (DOMElementNode ''iframe'' ''/html/body/iframe[2]'' [(''name'', Some ''inner'')] None
           (Some (DOMElementNode ''div'' ''/html/body/div'' [] None
             (Some (DOMElementNode ''iframe'' ''/html/body/iframe[1]'' [(''name'', Some ''outer'')] None
               None))))))))"

definition top_link :: dom_node where
  "top_link =
     DOMElementNode ''a'' ''/html/body/a[1]'' [(''href'', Some ''/next'')] (Some 2)
       (Some (DOMElementNode ''body'' ''/html/body'' [] None None))"

definition frames_broken :: "sim_world browser_context" where
  "frames_broken =
     \<lparr>context_id = ''c0'',
      session = Some \<lparr>current_page = 0, cached_state = get_initial_state []\<rparr>,
      current_state = None,
      world = \<lparr>open_pages = [(0, ''https://example.com/'')], next_page = 1,
               dom_available = True, frames_available = False\<rparr>\<rparr>"

section \<open>Properties of the allowlist guard\<close>

lemma is_url_allowed_unrestricted:
  "allowed_domains cfg = None \<or> allowed_domains cfg = Some [] \<Longrightarrow> is_url_allowed netloc_of cfg url"
  by (auto simp: is_url_allowed_def)

lemma is_url_allowed_parse_failure:
  "allowed_domains cfg = Some ds \<Longrightarrow> ds \<noteq> [] \<Longrightarrow> netloc_of url = Inl e
     \<Longrightarrow> \<not> is_url_allowed netloc_of cfg url"
  by (simp add: is_url_allowed_def)

lemma is_url_allowed_netloc:
  "allowed_domains cfg = Some ds \<Longrightarrow> ds \<noteq> [] \<Longrightarrow> netloc_of url = Inr netloc
     \<Longrightarrow> is_url_allowed netloc_of cfg url
         = (\<exists>a \<in> set ds. strip_port (py_lower netloc) = py_lower a
                \<or> suffix (CHR ''.'' # py_lower a) (strip_port (py_lower netloc)))"
  by (simp add: is_url_allowed_def list_ex_iff domain_matches_def)

text \<open>
  Claim C1. The guard is meant to compare the host of the URL, port stripped, with the
  allowlist. It compares the network location cut at its first colon instead, and the
  network location starts with the user information when the URL has one. For the URL
  \<open>https://example.com:pw@evil.com/\<close> the host is \<open>evil.com\<close>, which matches no
  entry of the allowlist \<open>["example.com"]\<close>, and yet the guard answers \<open>True\<close>: what
  it compares is \<open>example.com\<close>, the user name.
\<close>

theorem is_url_allowed_userinfo_bypass:
  "urlsplit_netloc (\<lambda>_. True) ''https://example.com:pw@evil.com/'' = Inr ''example.com:pw@evil.com''
   \<and> spec_host ''example.com:pw@evil.com'' = ''evil.com''
   \<and> \<not> list_ex (domain_matches ''evil.com'') [''example.com'']
   \<and> strip_port (py_lower ''example.com:pw@evil.com'') = ''example.com''
   \<and> is_url_allowed (urlsplit_netloc (\<lambda>_. True)) example_config ''https://example.com:pw@evil.com/''"
  by code_simp

section \<open>Properties of the network settle detector\<close>

lemma on_request_activity:
  "pending_requests (on_request now rq s) \<noteq> pending_requests s
     \<Longrightarrow> last_activity (on_request now rq s) = now"
  by (simp add: on_request_def Let_def split: if_splits)

lemma on_response_filtered:
  "on_response now rs s = Inr s' \<Longrightarrow> pending_requests s' \<noteq> pending_requests s
     \<Longrightarrow> response_filtered rs \<Longrightarrow> last_activity s' = last_activity s"
  by (auto simp: on_response_def response_filtered_def Let_def
           split: if_splits option.splits sum.splits)

lemma on_response_resolved:
  "on_response now rs s = Inr s' \<Longrightarrow> pending_requests s' \<noteq> pending_requests s
     \<Longrightarrow> \<not> response_filtered rs \<Longrightarrow> last_activity s' = now"
  by (auto simp: on_response_def response_filtered_def Let_def
           split: if_splits option.splits sum.splits)

text \<open>
  \<open>int\<close> does not skip the separator 31 before the digits: the handler ends with
  \<open>ValueError\<close>, and the pending set and the last activity stay as they were.
\<close>

lemma py_int_separator:
  "py_int [CHR 0x1F, CHR ''1'', CHR ''2''] = Inl (ValueError ''invalid literal for int() with base 10'')"
  by code_simp

lemma on_response_separator_length:
  "on_response 5
     \<lparr>response_request = example_request,
      response_headers = [(''content-type'', ''application/javascript''),
                          (''content-length'', [CHR 0x1F, CHR ''1'', CHR ''2''])]\<rparr>
     pending_example
     = Inl (ValueError ''invalid literal for int() with base 10'')"
  by code_simp

text \<open>
  Claim C2, as stated: every change of membership of the pending set updates the last
  activity to the current time. It fails for a removal by one of the filters of
  \<open>on_response\<close>: at time 5 the response with content type \<open>video/mp4\<close> removes its
  request from the pending set, and the last activity stays at 0.
\<close>

theorem filtered_removal_keeps_last_activity:
  "on_response 5 video_response pending_example = Inr \<lparr>pending_requests = {}, last_activity = 0\<rparr>
   \<and> pending_requests \<lparr>pending_requests = {}, last_activity = 0\<rparr> \<noteq> pending_requests pending_example
   \<and> last_activity \<lparr>pending_requests = {}, last_activity = 0::real\<rparr> \<noteq> 5"
  by code_simp

text \<open>
  Claim C2, amended: whenever the request handler changes the pending set (it adds the
  request), the last activity becomes the current time; whenever the response handler
  changes the pending set (it removes the request), the last activity becomes the
  current time if the response passes the filters, and stays as it was if the response
  is filtered out.
\<close>

theorem settle_activity_on_membership_change:
  "(pending_requests (on_request now rq s) \<noteq> pending_requests s
      \<longrightarrow> last_activity (on_request now rq s) = now)
   \<and> (on_response now rs s = Inr s' \<and> pending_requests s' \<noteq> pending_requests s
      \<longrightarrow> last_activity s' = (if response_filtered rs then last_activity s else now))"
proof (intro conjI impI)
  assume "pending_requests (on_request now rq s) \<noteq> pending_requests s"
  then show "last_activity (on_request now rq s) = now"
    by (rule on_request_activity)
next
  assume h: "on_response now rs s = Inr s' \<and> pending_requests s' \<noteq> pending_requests s"
  show "last_activity s' = (if response_filtered rs then last_activity s else now)"
  proof (cases "response_filtered rs")
    case True
    with h show ?thesis using on_response_filtered [of now rs s s'] by simp
  next
    case False
    with h show ?thesis using on_response_resolved [of now rs s s'] by simp
  qed
qed

theorem settle_activity_on_membership_change_witness:
  "pending_requests (on_request 5 example_request idle_example) \<noteq> pending_requests idle_example
   \<and> last_activity (on_request 5 example_request idle_example) = 5
   \<and> on_response 5 script_response pending_example = Inr \<lparr>pending_requests = {}, last_activity = 5\<rparr>
   \<and> pending_requests \<lparr>pending_requests = {}, last_activity = 5\<rparr> \<noteq> pending_requests pending_example
   \<and> \<not> response_filtered script_response
   \<and> last_activity \<lparr>pending_requests = {}, last_activity = 5::real\<rparr> = 5"
proof -
  have a: "pending_requests (on_request 5 example_request idle_example) \<noteq> pending_requests idle_example"
    by code_simp
  have b: "on_response 5 script_response pending_example = Inr \<lparr>pending_requests = {}, last_activity = 5\<rparr>"
    by code_simp
  have c: "pending_requests \<lparr>pending_requests = {}, last_activity = 5\<rparr> \<noteq> pending_requests pending_example"
    by code_simp
  have d: "\<not> response_filtered script_response"
    by code_simp
  from a b c d
    settle_activity_on_membership_change [where now = 5 and rq = example_request
      and s = idle_example]
    settle_activity_on_membership_change [where now = 5 and rs = script_response
      and s = pending_example and s' = "\<lparr>pending_requests = {}, last_activity = 5\<rparr>"]
  show ?thesis by simp
qed

section \<open>Properties of the selector synthesizer\<close>

lemma py_int_raises: "py_int s = Inl e \<Longrightarrow> \<exists>m. e = ValueError m"
  by (auto simp: py_int_def Let_def split: if_splits)

lemma index_selector_raises: "index_selector idx = Inl e \<Longrightarrow> \<exists>m. e = ValueError m"
  by (auto simp: index_selector_def Let_def dest: py_int_raises split: if_splits sum.splits)

lemma append_indices_returns: "\<exists>r. append_indices base_part indices = Inr r"
proof (induction indices arbitrary: base_part)
  case Nil
  show ?case by simp
next
  case (Cons idx indices)
  show ?case
  proof (cases "index_selector idx")
    case (Inl e)
    then obtain m where "e = ValueError m" using index_selector_raises by blast
    with Inl Cons.IH show ?thesis by simp
  next
    case (Inr t)
    with Cons.IH show ?thesis by simp
  qed
qed

lemma convert_part_returns: "\<exists>p. convert_part part = Inr p"
  by (simp add: convert_part_def Let_def append_indices_returns)

lemma convert_parts_returns: "\<exists>ps. convert_parts css_parts parts = Inr ps"
proof (induction parts arbitrary: css_parts)
  case Nil
  show ?case by simp
next
  case (Cons part parts)
  obtain p where "convert_part part = Inr p" using convert_part_returns by blast
  with Cons.IH show ?case by simp
qed

lemma convert_returns: "\<exists>base. convert_simple_xpath_to_css_selector x = Inr base"
proof -
  obtain ps where "convert_parts [] (py_split (CHR ''/'') (lstrip_chars ''/'' x)) = Inr ps"
    using convert_parts_returns by blast
  then show ?thesis by (simp add: convert_simple_xpath_to_css_selector_def)
qed

lemma valid_class_name_not_blank: "valid_class_name t \<Longrightarrow> py_strip t \<noteq> []"
proof -
  assume v: "valid_class_name t"
  then obtain c cs where t: "t = c # cs" and c: "ascii_alpha c \<or> c = CHR ''_''"
    by (auto simp: valid_class_name_def split: list.splits)
  have ns: "\<not> py_isspace c"
    using c by (auto simp: ascii_alpha_def py_isspace_def Let_def)
  have "dropWhile py_isspace (rev cs @ [c]) \<noteq> []"
    using ns by (simp add: dropWhile_eq_Nil_conv)
  with t ns show ?thesis by (simp add: py_strip_def)
qed

lemma append_classes_eq:
  "append_classes css classes
     = css @ concat (map (\<lambda>t. CHR ''.'' # t) (filter valid_class_name classes))"
  by (induction classes arbitrary: css) (auto dest: valid_class_name_not_blank)

lemma append_attributes_typed:
  "None \<notin> snd ` set items
     \<Longrightarrow> append_attributes css items = Inr (css @ concat (map attribute_part items))"
proof (induction items arbitrary: css)
  case Nil
  show ?case by simp
next
  case (Cons item items)
  obtain k v where item: "item = (k, Some v)"
    using Cons.prems by (cases item; cases "snd item") auto
  have "None \<notin> snd ` set items" using Cons.prems by auto
  then show ?case
    using Cons.IH item
    by (simp add: attribute_part_def attribute_used_def Let_def)
qed

lemma append_attributes_raises:
  "append_attributes css items = Inl e
     \<Longrightarrow> (\<exists>k. attribute_used k \<and> (k, None) \<in> set items)"
proof (induction items arbitrary: css)
  case Nil
  then show ?case by simp
next
  case (Cons item items)
  obtain k v where item: "item = (k, v)" by (cases item)
  show ?case
  proof (cases "attribute_used k")
    case False
    then have "append_attributes css (item # items) = append_attributes css items"
      using item by (auto simp: attribute_used_def)
    with Cons show ?thesis by auto
  next
    case True
    show ?thesis
    proof (cases v)
      case None
      with True item show ?thesis by auto
    next
      case (Some s)
      with True item Cons.prems
      have "append_attributes (css @ attribute_selector (replace_char (CHR '':'') [CHR 0x5C, CHR '':''] k) s) items = Inl e"
        by (simp add: attribute_used_def Let_def)
      with Cons.IH show ?thesis by auto
    qed
  qed
qed

lemma sublist_concat_map: "x \<in> set xs \<Longrightarrow> sublist (f x) (concat (map f xs))"
proof -
  assume "x \<in> set xs"
  then obtain as bs where "xs = as @ x # bs" by (auto dest: split_list)
  then have "concat (map f xs) = concat (map f as) @ f x @ concat (map f bs)" by simp
  then show ?thesis unfolding sublist_def by blast
qed

lemma selector_typed:
  assumes "None \<notin> snd ` set (attributes e)"
  shows "\<exists>base. convert_simple_xpath_to_css_selector (xpath e) = Inr base
     \<and> enhanced_css_selector_for_element e
          = Inr (base
                 @ (case map_of (attributes e) ''class'' of Some (Some cls) \<Rightarrow> class_part cls | _ \<Rightarrow> [])
                 @ concat (map attribute_part (attributes e)))"
proof -
  obtain base where b: "convert_simple_xpath_to_css_selector (xpath e) = Inr base"
    using convert_returns by blast
  have "py_split_ws [] = []" by (simp add: py_split_ws_def)
  then have "class_part [] = []" by (simp add: class_part_def)
  then show ?thesis
    using b assms
    by (auto simp: enhanced_css_selector_for_element_def selector_try_body_def
                   append_attributes_typed append_classes_eq class_part_def
             split: option.splits)
qed

lemma selector_try_body_raises:
  "selector_try_body e = Inl x \<Longrightarrow> \<exists>k. attribute_used k \<and> (k, None) \<in> set (attributes e)"
proof -
  assume a: "selector_try_body e = Inl x"
  obtain base where "convert_simple_xpath_to_css_selector (xpath e) = Inr base"
    using convert_returns by blast
  with a obtain css where "append_attributes css (attributes e) = Inl x"
    by (auto simp: selector_try_body_def)
  then show ?thesis by (rule append_attributes_raises)
qed

text \<open>
  Claim C8. For every DOM element node the selector synthesis returns a selector and
  never raises; when the body of its \<open>try\<close> raises, what it returns is the fallback
  \<open>tag[highlight_index='N']\<close>, with the tag name (or \<open>*\<close> when it is empty) and the
  element's highlight index.
\<close>

theorem selector_always_produced:
  "(\<exists>css. enhanced_css_selector_for_element e = Inr css)
   \<and> (\<forall>x. selector_try_body e = Inl x \<longrightarrow>
         enhanced_css_selector_for_element e
           = Inr ((if tag_name e = [] then ''*'' else tag_name e)
                  @ ''[highlight_index='' @ [CHR 0x27]
                  @ (case highlight_index e of None \<Rightarrow> ''None'' | Some i \<Rightarrow> str_of_int i)
                  @ [CHR 0x27] @ '']''))"
  by (cases "selector_try_body e")
     (simp_all add: enhanced_css_selector_for_element_def fallback_selector_def)

text \<open>
  The body does raise on a node whose \<open>id\<close> is not a string, and the synthesis returns
  \<open>div[highlight_index='3']\<close>.
\<close>

theorem selector_always_produced_witness:
  "selector_try_body untyped_node = Inl (TypeError ''argument of type NoneType is not iterable'')
   \<and> enhanced_css_selector_for_element untyped_node
       = Inr (''div[highlight_index='' @ [CHR 0x27] @ ''3'' @ [CHR 0x27] @ '']'')"
proof -
  have a: "selector_try_body untyped_node = Inl (TypeError ''argument of type NoneType is not iterable'')"
    by code_simp
  have b: "tag_name untyped_node = ''div''" "highlight_index untyped_node = Some 3"
    by (simp_all add: untyped_node_def)
  have c: "str_of_int 3 = ''3''" by code_simp
  from selector_always_produced [of untyped_node] a
  have "enhanced_css_selector_for_element untyped_node
           = Inr ((if tag_name untyped_node = [] then ''*'' else tag_name untyped_node)
                  @ ''[highlight_index='' @ [CHR 0x27]
                  @ (case highlight_index untyped_node of None \<Rightarrow> ''None'' | Some i \<Rightarrow> str_of_int i)
                  @ [CHR 0x27] @ '']'')"
    by blast
  with a b c show ?thesis by simp
qed

lemma id_foo_part:
  "attribute_part (''id'', Some ''foo'') = ''[id='' @ [CHR 0x22] @ ''foo'' @ [CHR 0x22] @ '']''"
  by code_simp

lemma class_a_b_part: "class_part ''a b'' = ''.a.b''"
  by code_simp

text \<open>
  Claim C9. For a node with typed attributes: an \<open>id\<close> of \<open>foo\<close> puts \<open>[id="foo"]\<close>
  into the selector; a class attribute \<open>a b\<close> puts \<open>.a.b\<close> into it; and for any class
  attribute the selector is the converted path, then one \<open>.token\<close> for each token
  that matches the pattern of class names and nothing for the others, then the
  attribute selectors. No exception is raised.
\<close>

theorem selector_id_and_classes:
  assumes "None \<notin> snd ` set (attributes e)"
  shows "((''id'', Some ''foo'') \<in> set (attributes e) \<longrightarrow>
            (\<exists>css. enhanced_css_selector_for_element e = Inr css
                 \<and> sublist (''[id='' @ [CHR 0x22] @ ''foo'' @ [CHR 0x22] @ '']'') css))
       \<and> (map_of (attributes e) ''class'' = Some (Some ''a b'') \<longrightarrow>
            (\<exists>css. enhanced_css_selector_for_element e = Inr css \<and> sublist ''.a.b'' css))
       \<and> (\<forall>cls. map_of (attributes e) ''class'' = Some (Some cls) \<longrightarrow>
            (\<exists>base. convert_simple_xpath_to_css_selector (xpath e) = Inr base
                 \<and> enhanced_css_selector_for_element e
                     = Inr (base
                            @ concat (map (\<lambda>t. CHR ''.'' # t) (filter valid_class_name (py_split_ws cls)))
                            @ concat (map attribute_part (attributes e)))))"
proof -
  from selector_typed [OF assms] obtain base where
    b: "convert_simple_xpath_to_css_selector (xpath e) = Inr base" and
    s: "enhanced_css_selector_for_element e
          = Inr (base
                 @ (case map_of (attributes e) ''class'' of Some (Some cls) \<Rightarrow> class_part cls | _ \<Rightarrow> [])
                 @ concat (map attribute_part (attributes e)))"
    by blast
  have p1: "(''id'', Some ''foo'') \<in> set (attributes e) \<longrightarrow>
            (\<exists>css. enhanced_css_selector_for_element e = Inr css
                 \<and> sublist (''[id='' @ [CHR 0x22] @ ''foo'' @ [CHR 0x22] @ '']'') css)"
  proof
    assume "(''id'', Some ''foo'') \<in> set (attributes e)"
    then have "sublist (attribute_part (''id'', Some ''foo'')) (concat (map attribute_part (attributes e)))"
      by (rule sublist_concat_map)
    then have "sublist (''[id='' @ [CHR 0x22] @ ''foo'' @ [CHR 0x22] @ '']'')
                 (concat (map attribute_part (attributes e)))"
      by (simp only: id_foo_part)
    then have "sublist (''[id='' @ [CHR 0x22] @ ''foo'' @ [CHR 0x22] @ '']'')
                 (base
                  @ (case map_of (attributes e) ''class'' of Some (Some cls) \<Rightarrow> class_part cls | _ \<Rightarrow> [])
                  @ concat (map attribute_part (attributes e)))"
      unfolding sublist_def by (metis append.assoc)
    with s show "\<exists>css. enhanced_css_selector_for_element e = Inr css
                 \<and> sublist (''[id='' @ [CHR 0x22] @ ''foo'' @ [CHR 0x22] @ '']'') css"
      by blast
  qed
  have p2: "map_of (attributes e) ''class'' = Some (Some ''a b'') \<longrightarrow>
            (\<exists>css. enhanced_css_selector_for_element e = Inr css \<and> sublist ''.a.b'' css)"
  proof
    assume c: "map_of (attributes e) ''class'' = Some (Some ''a b'')"
    have "sublist ''.a.b'' (base @ ''.a.b'' @ concat (map attribute_part (attributes e)))"
      unfolding sublist_def by blast
    with s c show "\<exists>css. enhanced_css_selector_for_element e = Inr css \<and> sublist ''.a.b'' css"
      by (simp add: class_a_b_part)
  qed
  have p3: "\<forall>cls. map_of (attributes e) ''class'' = Some (Some cls) \<longrightarrow>
            (\<exists>base. convert_simple_xpath_to_css_selector (xpath e) = Inr base
                 \<and> enhanced_css_selector_for_element e
                     = Inr (base
                            @ concat (map (\<lambda>t. CHR ''.'' # t) (filter valid_class_name (py_split_ws cls)))
                            @ concat (map attribute_part (attributes e))))"
    using b s by (auto simp: class_part_def)
  from p1 p2 p3 show ?thesis by blast
qed

text \<open>
  On the examples: of the tokens of \<open>a 1b b$ c\<close> only \<open>a\<close> and \<open>c\<close> are kept.
\<close>

theorem selector_id_and_classes_witness:
  "None \<notin> snd ` set (attributes typed_node)
   \<and> (''id'', Some ''foo'') \<in> set (attributes typed_node)
   \<and> map_of (attributes typed_node) ''class'' = Some (Some ''a b'')
   \<and> (\<exists>css. enhanced_css_selector_for_element typed_node = Inr css
          \<and> sublist (''[id='' @ [CHR 0x22] @ ''foo'' @ [CHR 0x22] @ '']'') css
          \<and> sublist ''.a.b'' css)
   \<and> None \<notin> snd ` set (attributes odd_class_node)
   \<and> map_of (attributes odd_class_node) ''class'' = Some (Some ''a 1b b$ c'')
   \<and> filter valid_class_name (py_split_ws ''a 1b b$ c'') = [''a'', ''c'']
   \<and> enhanced_css_selector_for_element odd_class_node
        = Inr (''html > body > a:nth-of-type(1).a.c[id='' @ [CHR 0x22] @ ''foo'' @ [CHR 0x22] @ '']'')"
proof -
  have t: "None \<notin> snd ` set (attributes typed_node)"
    by (simp add: typed_node_def)
  have i: "(''id'', Some ''foo'') \<in> set (attributes typed_node)"
    by (simp add: typed_node_def)
  have c: "map_of (attributes typed_node) ''class'' = Some (Some ''a b'')"
    by (simp add: typed_node_def)
  have t2: "None \<notin> snd ` set (attributes odd_class_node)"
    by (simp add: odd_class_node_def)
  have c2: "map_of (attributes odd_class_node) ''class'' = Some (Some ''a 1b b$ c'')"
    by (simp add: odd_class_node_def)
  have f: "filter valid_class_name (py_split_ws ''a 1b b$ c'') = [''a'', ''c'']"
    by code_simp
  have v: "enhanced_css_selector_for_element odd_class_node
        = Inr (''html > body > a:nth-of-type(1).a.c[id='' @ [CHR 0x22] @ ''foo'' @ [CHR 0x22] @ '']'')"
    by code_simp
  have e: "enhanced_css_selector_for_element typed_node
        = Inr (''html > body > a:nth-of-type(1).a.b[id='' @ [CHR 0x22] @ ''foo'' @ [CHR 0x22] @ '']'')"
    by code_simp
  from selector_id_and_classes [OF t] i c
  have "(\<exists>css. enhanced_css_selector_for_element typed_node = Inr css
          \<and> sublist (''[id='' @ [CHR 0x22] @ ''foo'' @ [CHR 0x22] @ '']'') css)
      \<and> (\<exists>css. enhanced_css_selector_for_element typed_node = Inr css \<and> sublist ''.a.b'' css)"
    by blast
  with e have "\<exists>css. enhanced_css_selector_for_element typed_node = Inr css
          \<and> sublist (''[id='' @ [CHR 0x22] @ ''foo'' @ [CHR 0x22] @ '']'') css
          \<and> sublist ''.a.b'' css"
    by auto
  with t i c t2 c2 f v show ?thesis by blast
qed

section \<open>Properties of the session lifecycle\<close>

lemma save_cookies_returns: "fst (save_cookies E cfg s) = Inr ()"
  by (auto simp: save_cookies_def try_except_def bindE_def liftE_def returnE_def
           split: option.splits prod.splits sum.splits)

lemma save_cookies_session: "session (snd (save_cookies E cfg s)) = session s"
  by (auto simp: save_cookies_def try_except_def bindE_def liftE_def returnE_def
           split: option.splits prod.splits sum.splits)

lemma stop_tracing_returns: "fst (stop_tracing E cfg s) = Inr ()"
  by (auto simp: stop_tracing_def try_except_def liftE_def returnE_def
           split: option.splits prod.splits sum.splits)

lemma close_context_returns:
  "fst (try_except (liftE (context_close E)) (\<lambda>e. returnE ()) s) = Inr ()"
  by (auto simp: try_except_def liftE_def returnE_def split: prod.splits sum.splits)

lemma close_body_returns: "fst (close_body E cfg s) = Inr ()"
proof (cases "session s = None")
  case True
  then show ?thesis by (simp add: close_body_def)
next
  case False
  obtain s1 where s1: "save_cookies E cfg s = (Inr (), s1)"
    using save_cookies_returns [of E cfg s] by (cases "save_cookies E cfg s") auto
  obtain s2 where s2: "stop_tracing E cfg s1 = (Inr (), s2)"
    using stop_tracing_returns [of E cfg s1] by (cases "stop_tracing E cfg s1") auto
  from False s1 s2 show ?thesis
    by (simp add: close_body_def bindE_def close_context_returns)
qed

lemma close_returns: "fst (close E cfg s) = Inr ()"
  using close_body_returns [of E cfg s] by (auto simp: close_def split: prod.splits)

lemma close_session: "session (snd (close E cfg s)) = None"
  by (simp add: close_def split: prod.splits)

lemma close_closed: "session s = None \<Longrightarrow> close E cfg s = (Inr (), s)"
  by (simp add: close_def close_body_def)

text \<open>
  Claim C7. Whatever the engine does (reading the cookies, writing them, stopping the
  trace and closing the context may each raise), \<open>close\<close> returns without an
  exception and leaves the session \<open>None\<close>; a second \<open>close\<close> returns without an
  exception too and changes nothing, so the session is \<open>None\<close> after it as well.
\<close>

theorem close_twice:
  "fst (close E cfg s) = Inr ()
   \<and> session (snd (close E cfg s)) = None
   \<and> close E cfg (snd (close E cfg s)) = (Inr (), snd (close E cfg s))"
  using close_returns close_session close_closed by blast

section \<open>Properties of tabs and of the access by index\<close>

lemma bindE_Inr: "m s = (Inr x, s') \<Longrightarrow> bindE m f s = f x s'"
  by (simp add: bindE_def)

lemma bindE_Inl: "m s = (Inl e, s') \<Longrightarrow> bindE m f s = (Inl e, s')"
  by (simp add: bindE_def)

lemma get_session_active: "session s = Some x \<Longrightarrow> get_session E s = (Inr x, s)"
  by (simp add: get_session_def)

lemma get_current_page_active:
  "session s = Some x \<Longrightarrow> get_current_page E s = (Inr (current_page x), s)"
  by (simp add: get_current_page_def bindE_def get_session_def returnE_def)

lemma get_current_page_of_session:
  "get_session E s = (Inr x, s') \<Longrightarrow> get_current_page E s = (Inr (current_page x), s')"
  by (simp add: get_current_page_def bindE_def returnE_def)

lemma get_selector_map_of_session:
  "get_session E s = (Inr x, s') \<Longrightarrow> get_selector_map E s = (Inr (selector_map (cached_state x)), s')"
  by (simp add: get_selector_map_def bindE_def returnE_def)

text \<open>
  Claim C10. Once the session is there, \<open>get_element_by_index\<close> and
  \<open>get_dom_element_by_index\<close> raise \<open>KeyError\<close> for an index that is not a key of the
  cached snapshot's selector map; they do not return \<open>None\<close> for it.
\<close>

theorem unknown_index_raises_key_error:
  assumes "get_session E s = (Inr the_session, s')"
    and "map_of (selector_map (cached_state the_session)) index = None"
  shows "get_element_by_index E index s = (Inl (KeyError index), s')
       \<and> get_dom_element_by_index E index s = (Inl (KeyError index), s')"
  using assms
  by (simp add: get_element_by_index_def get_dom_element_by_index_def
                get_selector_map_of_session bindE_Inr dict_get_def raiseE_def)

theorem unknown_index_raises_key_error_witness:
  "get_session sim_engine (sim_fresh\<lparr>session := Some one_entry_session\<rparr>)
      = (Inr one_entry_session, sim_fresh\<lparr>session := Some one_entry_session\<rparr>)
   \<and> map_of (selector_map (cached_state one_entry_session)) 2 = None
   \<and> get_element_by_index sim_engine 2 (sim_fresh\<lparr>session := Some one_entry_session\<rparr>)
        = (Inl (KeyError 2), sim_fresh\<lparr>session := Some one_entry_session\<rparr>)
   \<and> get_dom_element_by_index sim_engine 2 (sim_fresh\<lparr>session := Some one_entry_session\<rparr>)
        = (Inl (KeyError 2), sim_fresh\<lparr>session := Some one_entry_session\<rparr>)"
proof -
  have a: "get_session sim_engine (sim_fresh\<lparr>session := Some one_entry_session\<rparr>)
      = (Inr one_entry_session, sim_fresh\<lparr>session := Some one_entry_session\<rparr>)"
    by (simp add: get_session_def)
  have b: "map_of (selector_map (cached_state one_entry_session)) 2 = None"
    by (simp add: one_entry_session_def)
  from unknown_index_raises_key_error [OF a b] a b show ?thesis by blast
qed

lemma liftE_session: "session (snd (liftE io s)) = session s"
  by (simp add: liftE_def split: prod.splits)





section \<open>Properties of navigation\<close>















section \<open>Properties of the state refresh\<close>

lemma keeps_returnE: "keeps_current_state (returnE x)"
  by (simp add: keeps_current_state_def returnE_def)

lemma keeps_liftE: "keeps_current_state (liftE io)"
  by (simp add: keeps_current_state_def liftE_def split: prod.splits)

lemma keeps_bindE:
  assumes "keeps_current_state m" and "\<And>x. keeps_current_state (f x)"
  shows "keeps_current_state (bindE m f)"
  unfolding keeps_current_state_def
proof
  fix s
  obtain r s1 where ms: "m s = (r, s1)" by (cases "m s")
  have k: "current_state s1 = current_state s"
    using assms(1) ms unfolding keeps_current_state_def by (metis snd_conv)
  show "current_state (snd (bindE m f s)) = current_state s"
  proof (cases r)
    case (Inl e)
    with ms k show ?thesis by (simp add: bindE_def)
  next
    case (Inr x)
    have "current_state (snd (f x s1)) = current_state s1"
      using assms(2) unfolding keeps_current_state_def by blast
    with Inr ms k show ?thesis by (simp add: bindE_def)
  qed
qed

lemma keeps_try_except:
  assumes "keeps_current_state m" and "\<And>e. keeps_current_state (h e)"
  shows "keeps_current_state (try_except m h)"
  unfolding keeps_current_state_def
proof
  fix s
  obtain r s1 where ms: "m s = (r, s1)" by (cases "m s")
  have k: "current_state s1 = current_state s"
    using assms(1) ms unfolding keeps_current_state_def by (metis snd_conv)
  show "current_state (snd (try_except m h s)) = current_state s"
  proof (cases r)
    case (Inl e)
    have "current_state (snd (h e s1)) = current_state s1"
      using assms(2) unfolding keeps_current_state_def by blast
    with Inl ms k show ?thesis by (simp add: try_except_def)
  next
    case (Inr x)
    with ms k show ?thesis by (simp add: try_except_def)
  qed
qed

lemma keeps_get_session: "keeps_current_state (get_session E)"
  unfolding keeps_current_state_def
  by (auto simp: get_session_def initialize_session_def bindE_def liftE_def Let_def
           split: option.splits prod.splits sum.splits)

lemma keeps_get_current_page: "keeps_current_state (get_current_page E)"
  unfolding get_current_page_def
  by (intro keeps_bindE keeps_get_session keeps_returnE)

lemma keeps_remove_highlights: "keeps_current_state (remove_highlights E)"
  unfolding remove_highlights_def
  by (intro keeps_try_except keeps_bindE keeps_get_current_page keeps_liftE keeps_returnE)

lemma keeps_take_screenshot: "keeps_current_state (take_screenshot E)"
  unfolding take_screenshot_def
  by (intro keeps_bindE keeps_get_current_page keeps_liftE)

lemma keeps_get_scroll_info: "keeps_current_state (get_scroll_info E page)"
  unfolding get_scroll_info_def
  by (intro keeps_bindE keeps_liftE keeps_returnE)

lemma tabs_info_loop_current_state:
  "current_state (snd (tabs_info_loop E i pages acc s)) = current_state s"
proof (induction pages arbitrary: i acc s)
  case Nil
  show ?case by simp
next
  case (Cons page pages)
  obtain r s1 where l: "liftE (page_title E page) s = (r, s1)"
    by (cases "liftE (page_title E page) s")
  have k: "current_state s1 = current_state s"
    using keeps_liftE [of "page_title E page"] l
    unfolding keeps_current_state_def by (metis snd_conv)
  show ?case
  proof (cases r)
    case (Inl e)
    with l k show ?thesis by simp
  next
    case (Inr t)
    with l k Cons.IH show ?thesis by simp
  qed
qed

lemma keeps_get_tabs_info: "keeps_current_state (get_tabs_info E)"
proof -
  have "keeps_current_state (\<lambda>s. tabs_info_loop E 0 (context_pages E (world s)) [] s)"
    unfolding keeps_current_state_def by (simp add: tabs_info_loop_current_state)
  then show ?thesis
    unfolding get_tabs_info_def by (intro keeps_bindE keeps_get_session)
qed

lemma failure_keeps_bindE:
  assumes "keeps_current_state m" and "\<And>x. failure_keeps_current_state (f x)"
  shows "failure_keeps_current_state (bindE m f)"
  unfolding failure_keeps_current_state_def
proof (intro allI impI)
  fix s e s'
  assume b: "bindE m f s = (Inl e, s')"
  obtain r s1 where ms: "m s = (r, s1)" by (cases "m s")
  have k: "current_state s1 = current_state s"
    using assms(1) ms unfolding keeps_current_state_def by (metis snd_conv)
  show "current_state s' = current_state s"
  proof (cases r)
    case (Inl e1)
    with ms b k show ?thesis by (simp add: bindE_def)
  next
    case (Inr x)
    with ms b have "f x s1 = (Inl e, s')" by (simp add: bindE_def)
    then have "current_state s' = current_state s1"
      using assms(2) unfolding failure_keeps_current_state_def by blast
    with k show ?thesis by simp
  qed
qed

lemma failure_keeps_assemble_state:
  "failure_keeps_current_state (assemble_state E cfg use_vision focus_element page)"
proof -
  have last_step: "\<And>g. failure_keeps_current_state (\<lambda>s. (Inr (g s), s\<lparr>current_state := Some (g s)\<rparr>))"
    by (simp add: failure_keeps_current_state_def)
  have url_step: "keeps_current_state (\<lambda>s. (Inr (page_url E (world s) page), s))"
    by (simp add: keeps_current_state_def)
  have shot: "keeps_current_state
                (if use_vision then bindE (take_screenshot E) (\<lambda>b. returnE (Some b)) else returnE None)"
    by (simp add: keeps_bindE keeps_take_screenshot keeps_returnE)
  show ?thesis
    unfolding assemble_state_def Let_def
    by (intro failure_keeps_bindE keeps_remove_highlights keeps_liftE shot
              keeps_get_scroll_info url_step keeps_get_tabs_info last_step)
qed

lemma keeps_accessible_page: "keeps_current_state (accessible_page E)"
proof -
  have h: "\<And>e. keeps_current_state
             (\<lambda>s. (let pages = context_pages E (world s)
                    in if pages \<noteq> []
                       then bindE (liftE (page_title E (last pages))) (\<lambda>_. returnE (last pages))
                              (set_current_page (last pages) s)
                       else (Inl (BrowserError ''Browser closed: no valid pages available''), s)))"
    unfolding keeps_current_state_def
    by (auto simp: Let_def bindE_def liftE_def returnE_def set_current_page_def
             split: prod.splits sum.splits)
  show ?thesis
    unfolding accessible_page_def
    by (intro keeps_try_except keeps_bindE keeps_get_current_page keeps_liftE keeps_returnE h)
qed

text \<open>
  Claim C5. When the session is there, the current page is found accessible and the
  extraction or the assembly of the snapshot then raises, \<open>_update_state\<close> returns the
  previous snapshot (the attribute \<open>current_state\<close> as it was before the call) if there
  is one, instead of raising; only without a previous snapshot does it raise, and then
  the exception is the one of the failure.
\<close>

theorem update_state_falls_back_to_previous:
  assumes "get_session E s = (Inr x, s1)"
    and "accessible_page E s1 = (Inr page, s2)"
    and "assemble_state E cfg use_vision focus_element page s2 = (Inl e, s3)"
  shows "update_state E cfg use_vision focus_element s
           = (case current_state s of
                Some previous \<Rightarrow> (Inr previous, s3)
              | None \<Rightarrow> (Inl e, s3))"
proof -
  have k1: "current_state s1 = current_state s"
    using keeps_get_session [of E] assms(1) unfolding keeps_current_state_def by (metis snd_conv)
  have k2: "current_state s2 = current_state s1"
    using keeps_accessible_page [of E] assms(2) unfolding keeps_current_state_def by (metis snd_conv)
  have k3: "current_state s3 = current_state s2"
    using failure_keeps_assemble_state [of E cfg use_vision focus_element page] assms(3)
    unfolding failure_keeps_current_state_def by blast
  have "update_state E cfg use_vision focus_element s
          = (case current_state s3 of
               Some previous \<Rightarrow> (Inr previous, s3)
             | None \<Rightarrow> (Inl e, s3))"
    using assms by (simp add: update_state_def bindE_def try_except_def)
  with k1 k2 k3 show ?thesis by simp
qed

theorem update_state_falls_back_to_previous_witness:
  "get_session sim_engine dom_broken
      = (Inr \<lparr>current_page = 0, cached_state = get_initial_state []\<rparr>, dom_broken)
   \<and> accessible_page sim_engine dom_broken = (Inr 0, dom_broken)
   \<and> assemble_state sim_engine example_config False (- 1) 0 dom_broken
        = (Inl (Exception ''Execution context was destroyed''), dom_broken)
   \<and> update_state sim_engine example_config False (- 1) dom_broken
        = (Inl (Exception ''Execution context was destroyed''), dom_broken)
   \<and> update_state sim_engine example_config False (- 1) (dom_broken\<lparr>current_state := Some earlier_snapshot\<rparr>)
        = (Inr earlier_snapshot, dom_broken\<lparr>current_state := Some earlier_snapshot\<rparr>)"
proof -
  let ?x = "\<lparr>current_page = 0, cached_state = get_initial_state []\<rparr>"
  let ?e = "Exception ''Execution context was destroyed''"
  let ?d = "dom_broken\<lparr>current_state := Some earlier_snapshot\<rparr>"
  have a1: "get_session sim_engine dom_broken = (Inr ?x, dom_broken)"
    by (simp add: get_session_def dom_broken_def)
  have a2: "accessible_page sim_engine dom_broken = (Inr 0, dom_broken)"
    by code_simp
  have a3: "assemble_state sim_engine example_config False (- 1) 0 dom_broken = (Inl ?e, dom_broken)"
    by code_simp
  have b1: "get_session sim_engine ?d = (Inr ?x, ?d)"
    by (simp add: get_session_def dom_broken_def)
  have b2: "accessible_page sim_engine ?d = (Inr 0, ?d)"
    by code_simp
  have b3: "assemble_state sim_engine example_config False (- 1) 0 ?d = (Inl ?e, ?d)"
    by code_simp
  have n: "current_state dom_broken = None" by (simp add: dom_broken_def)
  have c1: "update_state sim_engine example_config False (- 1) dom_broken = (Inl ?e, dom_broken)"
    using update_state_falls_back_to_previous [OF a1 a2 a3] n by simp
  have c2: "update_state sim_engine example_config False (- 1) ?d = (Inr earlier_snapshot, ?d)"
    using update_state_falls_back_to_previous [OF b1 b2 b3] by simp
  from a1 a2 a3 c1 c2 show ?thesis by blast
qed

section \<open>Properties of the element locator\<close>

lemma collect_parents_eq: "collect_parents e acc = acc @ rev (ancestors_root_first e)"
  by (induction e acc rule: collect_parents.induct) simp_all

lemma iframe_parents_eq:
  "iframe_parents e = filter (\<lambda>n. tag_name n = ''iframe'') (ancestors_root_first e)"
  by (simp add: iframe_parents_def collect_parents_eq)

lemma enhanced_selector_text:
  "enhanced_css_selector_for_element n = Inr (selector_text n)"
  by (cases "selector_try_body n")
     (simp_all add: selector_text_def enhanced_css_selector_for_element_def)

lemma enter_frames_eq:
  "enter_frames f ns = Inr (foldl (\<lambda>f n. FrameLocator f (selector_text n)) f ns)"
  by (induction ns arbitrary: f) (simp_all add: enhanced_selector_text)

lemma get_locate_element_eq:
  assumes "get_current_page E s = (Inr page, s1)"
  shows "get_locate_element E element s
           = try_except (resolve_in_frame E (frame_chain page element) (selector_text element))
               (\<lambda>e. returnE None) s1"
  using assms
  by (simp add: get_locate_element_def bindE_def iframe_parents_eq enter_frames_eq
                enhanced_selector_text frame_chain_def)

lemma frame_chain_page:
  "filter (\<lambda>n. tag_name n = ''iframe'') (ancestors_root_first element) = []
     \<Longrightarrow> frame_chain page element = PageFrame page"
  by (simp add: frame_chain_def)

lemma frame_chain_locator:
  "filter (\<lambda>n. tag_name n = ''iframe'') (ancestors_root_first element) \<noteq> []
     \<Longrightarrow> \<exists>f sel. frame_chain page element = FrameLocator f sel"
proof -
  assume "filter (\<lambda>n. tag_name n = ''iframe'') (ancestors_root_first element) \<noteq> []"
  then obtain ns n where
    "filter (\<lambda>n. tag_name n = ''iframe'') (ancestors_root_first element) = ns @ [n]"
    by (metis rev_exhaust)
  then show ?thesis by (simp add: frame_chain_def)
qed

text \<open>
  Claim C4. With the current page at hand, \<open>get_locate_element\<close> never raises. For a
  node with iframe ancestors, the engine resolves the node's own selector inside the
  frame locators of those ancestors, entered in root-first order; its failure (an outer
  or inner frame, or the node, that does not resolve) gives \<open>None\<close>, its success the
  handle. For a node of the page itself the selector is queried on the page: a failure
  of the query or of the scrolling gives \<open>None\<close>, as does a missing element.
\<close>

theorem locate_element_frames_in_order:
  assumes "get_current_page E s = (Inr page, s1)"
  shows "(\<exists>r s'. get_locate_element E element s = (Inr r, s'))
       \<and> (filter (\<lambda>n. tag_name n = ''iframe'') (ancestors_root_first element) \<noteq> [] \<longrightarrow>
            get_locate_element E element s
              = (case locator_element_handle E (frame_chain page element) (selector_text element) (world s1) of
                   (Inl e, w) \<Rightarrow> (Inr None, s1\<lparr>world := w\<rparr>)
                 | (Inr h, w) \<Rightarrow> (Inr (Some h), s1\<lparr>world := w\<rparr>)))
       \<and> (filter (\<lambda>n. tag_name n = ''iframe'') (ancestors_root_first element) = [] \<longrightarrow>
            get_locate_element E element s
              = (case query_selector E page (selector_text element) (world s1) of
                   (Inl e, w) \<Rightarrow> (Inr None, s1\<lparr>world := w\<rparr>)
                 | (Inr None, w) \<Rightarrow> (Inr None, s1\<lparr>world := w\<rparr>)
                 | (Inr (Some h), w) \<Rightarrow>
                     (case scroll_into_view_if_needed E h w of
                        (Inl e, w') \<Rightarrow> (Inr None, s1\<lparr>world := w'\<rparr>)
                      | (Inr u, w') \<Rightarrow> (Inr (Some h), s1\<lparr>world := w'\<rparr>))))"
proof (intro conjI impI)
  note eq = get_locate_element_eq [OF assms, of element]
  show "\<exists>r s'. get_locate_element E element s = (Inr r, s')"
    unfolding eq
    by (cases "resolve_in_frame E (frame_chain page element) (selector_text element) s1";
        cases "fst (resolve_in_frame E (frame_chain page element) (selector_text element) s1)")
       (auto simp: try_except_def returnE_def)
next
  note eq = get_locate_element_eq [OF assms, of element]
  assume "filter (\<lambda>n. tag_name n = ''iframe'') (ancestors_root_first element) \<noteq> []"
  then obtain f sel where "frame_chain page element = FrameLocator f sel"
    using frame_chain_locator by blast
  then show "get_locate_element E element s
              = (case locator_element_handle E (frame_chain page element) (selector_text element) (world s1) of
                   (Inl e, w) \<Rightarrow> (Inr None, s1\<lparr>world := w\<rparr>)
                 | (Inr h, w) \<Rightarrow> (Inr (Some h), s1\<lparr>world := w\<rparr>))"
    unfolding eq
    by (auto simp: resolve_in_frame_def try_except_def bindE_def liftE_def returnE_def
             split: prod.splits sum.splits)
next
  note eq = get_locate_element_eq [OF assms, of element]
  assume "filter (\<lambda>n. tag_name n = ''iframe'') (ancestors_root_first element) = []"
  then have "frame_chain page element = PageFrame page"
    by (rule frame_chain_page)
  then show "get_locate_element E element s
              = (case query_selector E page (selector_text element) (world s1) of
                   (Inl e, w) \<Rightarrow> (Inr None, s1\<lparr>world := w\<rparr>)
                 | (Inr None, w) \<Rightarrow> (Inr None, s1\<lparr>world := w\<rparr>)
                 | (Inr (Some h), w) \<Rightarrow>
                     (case scroll_into_view_if_needed E h w of
                        (Inl e, w') \<Rightarrow> (Inr None, s1\<lparr>world := w'\<rparr>)
                      | (Inr u, w') \<Rightarrow> (Inr (Some h), s1\<lparr>world := w'\<rparr>)))"
    unfolding eq
    by (auto simp: resolve_in_frame_def try_except_def bindE_def liftE_def returnE_def
             split: prod.splits sum.splits option.splits)
qed

theorem locate_element_frames_in_order_witness:
  "get_current_page sim_engine frames_broken = (Inr 0, frames_broken)
   \<and> filter (\<lambda>n. tag_name n = ''iframe'') (ancestors_root_first nested_button)
        = [DOMElementNode ''iframe'' ''/html/body/iframe[1]'' [(''name'', Some ''outer'')] None None,
           DOMElementNode ''iframe'' ''/html/body/iframe[2]'' [(''name'', Some ''inner'')] None
             (Some (DOMElementNode ''div'' ''/html/body/div'' [] None
               (Some (DOMElementNode ''iframe'' ''/html/body/iframe[1]'' [(''name'', Some ''outer'')] None
                 None))))]
   \<and> frame_chain 0 nested_button
        = FrameLocator
            (FrameLocator (PageFrame 0)
               (''html > body > iframe:nth-of-type(1)[name='' @ [CHR 0x22] @ ''outer'' @ [CHR 0x22] @ '']''))
            (''html > body > iframe:nth-of-type(2)[name='' @ [CHR 0x22] @ ''inner'' @ [CHR 0x22] @ '']'')
   \<and> locator_element_handle sim_engine (frame_chain 0 nested_button) (selector_text nested_button)
          (world frames_broken)
        = (Inl (Exception ''Timeout exceeded while waiting for frame''), world frames_broken)
   \<and> get_locate_element sim_engine nested_button frames_broken = (Inr None, frames_broken)
   \<and> filter (\<lambda>n. tag_name n = ''iframe'') (ancestors_root_first top_link) = []
   \<and> get_locate_element sim_engine top_link frames_broken = (Inr None, frames_broken)"
proof -
  have p: "get_current_page sim_engine frames_broken = (Inr 0, frames_broken)"
    by (simp add: get_current_page_def get_session_def bindE_def returnE_def frames_broken_def)
  have f: "filter (\<lambda>n. tag_name n = ''iframe'') (ancestors_root_first nested_button)
        = [DOMElementNode ''iframe'' ''/html/body/iframe[1]'' [(''name'', Some ''outer'')] None None,
           DOMElementNode ''iframe'' ''/html/body/iframe[2]'' [(''name'', Some ''inner'')] None
             (Some (DOMElementNode ''div'' ''/html/body/div'' [] None
               (Some (DOMElementNode ''iframe'' ''/html/body/iframe[1]'' [(''name'', Some ''outer'')] None
                 None))))]"
    by code_simp
  have c: "frame_chain 0 nested_button
        = FrameLocator
            (FrameLocator (PageFrame 0)
               (''html > body > iframe:nth-of-type(1)[name='' @ [CHR 0x22] @ ''outer'' @ [CHR 0x22] @ '']''))
            (''html > body > iframe:nth-of-type(2)[name='' @ [CHR 0x22] @ ''inner'' @ [CHR 0x22] @ '']'')"
    by code_simp
  have l: "locator_element_handle sim_engine (frame_chain 0 nested_button) (selector_text nested_button)
          (world frames_broken)
        = (Inl (Exception ''Timeout exceeded while waiting for frame''), world frames_broken)"
    by (simp add: sim_engine_def frames_broken_def)
  have g: "filter (\<lambda>n. tag_name n = ''iframe'') (ancestors_root_first top_link) = []"
    by code_simp
  have q: "query_selector sim_engine 0 (selector_text top_link) (world frames_broken)
             = (Inr None, world frames_broken)"
    by (simp add: sim_engine_def)
  have n: "filter (\<lambda>n. tag_name n = ''iframe'') (ancestors_root_first nested_button) \<noteq> []"
    using f by simp
  have r1: "get_locate_element sim_engine nested_button frames_broken = (Inr None, frames_broken)"
    using locate_element_frames_in_order [OF p, of nested_button] n l by simp
  have r2: "get_locate_element sim_engine top_link frames_broken = (Inr None, frames_broken)"
    using locate_element_frames_in_order [OF p, of top_link] g q by simp
  from p f c l r1 g r2 show ?thesis by blast
qed

end
